theory Spec2Isabelle
  imports Complex_Main
begin

section \<open>Python strings\<close>

text \<open>
  Strings are character lists, and the strings of the backend are taken to be ASCII:
  \<open>lower\<close> is \<open>str.lower()\<close> and changes the letters A to Z only. \<open>py_in\<close> is
  the substring test \<open>needle in hay\<close>, \<open>replace\<close> is \<open>str.replace(old, new)\<close>:
  non-overlapping occurrences, leftmost first.
\<close>

definition ascii_uppercase :: string where
  "ascii_uppercase = ''ABCDEFGHIJKLMNOPQRSTUVWXYZ''"

definition ascii_lowercase :: string where
  "ascii_lowercase = ''abcdefghijklmnopqrstuvwxyz''"

definition lower_char :: "char \<Rightarrow> char" where
  "lower_char c =
     (case map_of (zip ascii_uppercase ascii_lowercase) c of Some d \<Rightarrow> d | None \<Rightarrow> c)"

definition upper_char :: "char \<Rightarrow> char" where
  "upper_char c =
     (case map_of (zip ascii_lowercase ascii_uppercase) c of Some d \<Rightarrow> d | None \<Rightarrow> c)"

definition lower :: "string \<Rightarrow> string" where
  "lower s = map lower_char s"

fun starts_with :: "string \<Rightarrow> string \<Rightarrow> bool" where
  "starts_with [] s = True"
| "starts_with (p # ps) [] = False"
| "starts_with (p # ps) (c # cs) = (p = c \<and> starts_with ps cs)"

fun py_in :: "string \<Rightarrow> string \<Rightarrow> bool" where
  "py_in needle [] = (needle = [])"
| "py_in needle (c # cs) = (starts_with needle (c # cs) \<or> py_in needle cs)"

function replace :: "string \<Rightarrow> string \<Rightarrow> string \<Rightarrow> string" where
  "replace old new s =
     (if old = [] then new @ concat (map (\<lambda>c. c # new) s)
      else if s = [] then []
      else if starts_with old s then new @ replace old new (drop (length old) s)
      else hd s # replace old new (tl s))"
  by pat_completeness auto
termination
  by (relation "measure (\<lambda>(old, new, s). length s)") (auto simp: neq_Nil_conv)

declare replace.simps [simp del]

section \<open>Failures\<close>

text \<open>
  The classes of \<open>errors\<close>, the provider's own taxonomy, and the exceptions that can
  travel through the provider: its own errors with their message, the SDK's
  \<open>ResourceNotFound\<close> and other \<open>HttpException\<close>s (with \<open>status_code\<close> and
  \<open>details\<close>), keystoneauth's \<open>HttpError\<close> (with \<open>http_status\<close> and
  \<open>message\<close>), the remaining SDK and keystoneauth exceptions, the
  \<open>HTTPError\<close> (with the response's status) and \<open>ConnectionError\<close> of
  \<open>requests\<close>, and Python's built-in exceptions.
\<close>

datatype error_class =
    AuthenticationError
  | PermissionDeniedError
  | ObjectNotFoundError
  | QuotaExceededError
  | BadInputError
  | InvalidOperationError
  | ImproperlyConfiguredError
  | CommunicationError
  | Error

datatype exn =
    Errors error_class string
  | ResourceNotFound int string
  | HttpException int string
  | KeystoneHttpError int string
  | SDKException
  | KeystoneClientException
  | RequestsHTTPError int
  | RequestsConnectionError
  | KeyError
  | TypeError
  | ValueError
  | AttributeError

section \<open>Error translation\<close>

definition REPLACEMENTS :: "(string \<times> string) list" where
  "REPLACEMENTS =
     [(''instance'', ''machine''),
      (''Instance'', ''Machine''),
      (''flavorRef'', ''size''),
      (''flavor'', ''size''),
      (''Flavor'', ''Size'')]"

definition replace_resource_names :: "string \<Rightarrow> string" where
  "replace_resource_names message =
     foldl (\<lambda>a x. replace (fst x) (snd x) a) message REPLACEMENTS"

definition quota_message :: string where
  "quota_message =
     ''Requested operation would exceed at least one quota. '' @
     ''Please check your tenancy quotas.''"

text \<open>The branch of \<open>convert_sdk_exceptions\<close> on the status code.\<close>

definition by_status_code :: "int \<Rightarrow> string \<Rightarrow> exn" where
  "by_status_code status_code message =
     (if status_code = 400 then Errors BadInputError message
      else if status_code = 401 then Errors AuthenticationError ''Your session has expired''
      else if status_code = 403 then
        (if py_in ''quota exceeded'' (lower message)
         then Errors QuotaExceededError quota_message
         else Errors PermissionDeniedError ''Permission denied'')
      else if status_code = 404 then Errors ObjectNotFoundError message
      else if status_code = 409 then
        (if py_in ''quota exceeded'' (lower message)
         then Errors QuotaExceededError quota_message
         else Errors InvalidOperationError message)
      else Errors CommunicationError ''Error communicating with OpenStack API'')"

text \<open>
  The \<open>except\<close> clauses of \<open>convert_sdk_exceptions\<close> in their order: what the
  wrapper raises when the wrapped function raised \<open>e\<close>. An exception that is
  neither the SDK's nor keystoneauth's leaves the wrapper as it is.
\<close>

fun translate :: "exn \<Rightarrow> exn" where
  "translate (ResourceNotFound status_code details) =
     Errors ObjectNotFoundError
       (replace_resource_names (replace ''404 Not Found: '' '''' details))"
| "translate (HttpException status_code details) =
     by_status_code status_code (replace_resource_names details)"
| "translate (KeystoneHttpError http_status message) =
     by_status_code http_status message"
| "translate SDKException = Errors Error ''Unknown error in OpenStack SDK''"
| "translate KeystoneClientException = Errors Error ''Unknown error in OpenStack SDK''"
| "translate e = e"

definition convert_sdk_exceptions :: "exn + 'a \<Rightarrow> exn + 'a" where
  "convert_sdk_exceptions r = (case r of Inl e \<Rightarrow> Inl (translate e) | Inr v \<Rightarrow> Inr v)"

section \<open>Python values\<close>

text \<open>
  A dictionary of strings (instance metadata, an image or flavor reference, a fault, a
  volume attachment) is an association list read with \<open>map_of\<close>; an absent key is
  \<open>None\<close>, where the subscript raises \<open>KeyError\<close> and \<open>.get\<close> returns its default.
  Where a dictionary is expected, \<open>None\<close> stands for a value that is none (Python's
  \<open>None\<close>, or the empty string that the compute service gives as the image of a
  server booted from a volume): its subscript raises \<open>TypeError\<close>.
\<close>

type_synonym py_dict = "(string \<times> string) list"

definition getitem :: "py_dict option \<Rightarrow> string \<Rightarrow> exn + string" where
  "getitem d k =
     (case d of
        None \<Rightarrow> Inl TypeError
      | Some kvs \<Rightarrow> (case map_of kvs k of None \<Rightarrow> Inl KeyError | Some v \<Rightarrow> Inr v))"

text \<open>\<open>x or default\<close> on an optional string: \<open>None\<close> and the empty string are false.\<close>

definition or_else :: "string option \<Rightarrow> string \<Rightarrow> string" where
  "or_else x d = (case x of None \<Rightarrow> d | Some v \<Rightarrow> if v = [] then d else v)"

text \<open>\<open>str.capitalize()\<close>: the first character in upper case, the rest in lower case.\<close>

definition capitalize :: "string \<Rightarrow> string" where
  "capitalize s = (case s of [] \<Rightarrow> [] | c # cs \<Rightarrow> upper_char c # map lower_char cs)"

text \<open>
  \<open>int(s)\<close> on an ASCII string. The white space that the conversion skips around the
  number is the space and the five characters from the horizontal tab (9) to the
  carriage return (13); the separators 28 to 31, which \<open>str.isspace\<close> and \<open>str.strip\<close>
  count as white space, are not skipped. A sign may come first, then decimal digits,
  where single underscores may stand between two digits. A numeral of more digits
  than the limit of the interpreter, 4300 unless it is configured otherwise, is
  refused like a malformed one (interpreters older than that limit read a numeral of
  any length). \<open>None\<close> is the \<open>ValueError\<close> of Python.
\<close>

definition is_space :: "char \<Rightarrow> bool" where
  "is_space c = (c \<in> set [CHR '' '', CHR 0x09, CHR 0x0A, CHR 0x0B, CHR 0x0C, CHR 0x0D])"

definition strip :: "string \<Rightarrow> string" where
  "strip s = rev (dropWhile is_space (rev (dropWhile is_space s)))"

definition digit_value :: "char \<Rightarrow> int option" where
  "digit_value c = map_of (zip ''0123456789'' [0, 1, 2, 3, 4, 5, 6, 7, 8, 9]) c"

fun parse_digits :: "int \<Rightarrow> string \<Rightarrow> int option" where
  "parse_digits acc [] = Some acc"
| "parse_digits acc [c] =
     (case digit_value c of None \<Rightarrow> None | Some v \<Rightarrow> Some (acc * 10 + v))"
| "parse_digits acc (c # d # ds) =
     (if c = CHR ''_'' then
        (case digit_value d of None \<Rightarrow> None | Some v \<Rightarrow> parse_digits (acc * 10 + v) ds)
      else
        (case digit_value c of None \<Rightarrow> None | Some v \<Rightarrow> parse_digits (acc * 10 + v) (d # ds)))"

definition int_max_str_digits :: nat where
  "int_max_str_digits = 4300"

definition parse_unsigned :: "string \<Rightarrow> int option" where
  "parse_unsigned s =
     (if int_max_str_digits < length (filter (\<lambda>c. digit_value c \<noteq> None) s) then None
      else
        (case s of
           [] \<Rightarrow> None
         | c # cs \<Rightarrow> (case digit_value c of None \<Rightarrow> None | Some v \<Rightarrow> parse_digits v cs)))"

definition py_int :: "string \<Rightarrow> int option" where
  "py_int s =
     (case strip s of
        [] \<Rightarrow> None
      | c # cs \<Rightarrow>
          if c = CHR ''-'' then map_option uminus (parse_unsigned cs)
          else if c = CHR ''+'' then parse_unsigned cs
          else parse_unsigned (c # cs))"

text \<open>A decoded JSON document, as \<open>response.json()\<close> returns it.\<close>

datatype json =
    JNull
  | JBool bool
  | JNum int
  | JStr string
  | JArr "json list"
  | JObj "(string \<times> json) list"

definition json_getitem :: "json \<Rightarrow> string \<Rightarrow> exn + json" where
  "json_getitem j k =
     (case j of
        JObj kvs \<Rightarrow> (case map_of kvs k of None \<Rightarrow> Inl KeyError | Some v \<Rightarrow> Inr v)
      | _ \<Rightarrow> Inl TypeError)"

section \<open>Operations that can fail and change the world\<close>

text \<open>
  An operation takes the world and returns either the exception it raised or its
  value, with the world it left. \<open>and_then\<close> runs the second operation on the value of
  the first and stops at the first exception.
\<close>

definition return :: "'a \<Rightarrow> 'w \<Rightarrow> (exn + 'a) \<times> 'w" where
  "return v w = (Inr v, w)"

definition raise :: "exn \<Rightarrow> 'w \<Rightarrow> (exn + 'a) \<times> 'w" where
  "raise e w = (Inl e, w)"

definition lift :: "exn + 'a \<Rightarrow> 'w \<Rightarrow> (exn + 'a) \<times> 'w" where
  "lift r w = (r, w)"

definition and_then ::
  "('w \<Rightarrow> (exn + 'a) \<times> 'w) \<Rightarrow> ('a \<Rightarrow> 'w \<Rightarrow> (exn + 'b) \<times> 'w) \<Rightarrow> 'w \<Rightarrow> (exn + 'b) \<times> 'w" where
  "and_then m k w =
     (case m w of
        (Inl e, w') \<Rightarrow> (Inl e, w')
      | (Inr v, w') \<Rightarrow> k v w')"

text \<open>A generator expression consumed by \<open>tuple\<close>: the elements in order.\<close>

fun for_each ::
  "('a \<Rightarrow> 'w \<Rightarrow> (exn + 'b) \<times> 'w) \<Rightarrow> 'a list \<Rightarrow> 'w \<Rightarrow> (exn + 'b list) \<times> 'w" where
  "for_each f [] w = (Inr [], w)"
| "for_each f (x # xs) w =
     (case f x w of
        (Inl e, w') \<Rightarrow> (Inl e, w')
      | (Inr y, w') \<Rightarrow>
          (case for_each f xs w' of
             (Inl e, w'') \<Rightarrow> (Inl e, w'')
           | (Inr ys, w'') \<Rightarrow> (Inr (y # ys), w'')))"

text \<open>The decorator \<open>convert_sdk_exceptions\<close> around an operation.\<close>

definition converted ::
  "('w \<Rightarrow> (exn + 'a) \<times> 'w) \<Rightarrow> 'w \<Rightarrow> (exn + 'a) \<times> 'w" where
  "converted f w = (case f w of (r, w') \<Rightarrow> (convert_sdk_exceptions r, w'))"

section \<open>The backend\<close>

text \<open>
  The resources of the SDK, with the attributes the provider reads. An attribute the
  provider guards against being absent is an \<open>option\<close>.
\<close>

record sdk_image =
  sdk_image_id :: string
  sdk_image_jasmin_type :: "string option"
  sdk_image_name :: string
  sdk_image_visibility :: string
  sdk_image_jasmin_nat_allowed :: "string option"
  sdk_image_size :: "int option"

record sdk_address =
  address_addr :: string
  address_version :: int
  address_type :: string

record sdk_server =
  server_id :: string
  server_name :: string
  server_image :: "py_dict option"
  server_flavor :: "py_dict option"
  server_metadata :: "py_dict option"
  server_status :: string
  server_fault :: "py_dict option"
  server_task_state :: "string option"
  server_power_state :: int
  server_addresses :: "(string \<times> sdk_address list) list"
  server_attached_volumes :: "py_dict list"
  server_user_id :: string
  server_created_at :: string

record sdk_network =
  network_id :: string
  network_name :: string

record sdk_port =
  port_id :: string
  port_device_id :: string
  port_network_id :: string

record sdk_floatingip =
  floatingip_id :: string
  floatingip_address :: string
  floatingip_port_id :: "string option"

record sdk_volume =
  sdk_volume_id :: string
  sdk_volume_name :: "string option"
  sdk_volume_status :: string
  sdk_volume_size :: int
  sdk_volume_attachments :: "py_dict list"

record absolute_limits =
  total_cores :: int
  total_cores_used :: int
  total_ram :: int
  total_ram_used :: int
  instances :: int
  instances_used :: int

datatype ips_query =
    All_ips
  | By_port_id string
  | By_floating_ip_address string

datatype ports_query =
    By_device_owner string
  | By_device_and_network string string

text \<open>
  The connection is the SDK binding the caller supplies: one operation for each call
  the provider makes, over a backend state \<open>'s\<close> that only the connection knows.
  A listing returns what the provider's \<open>list\<close> or \<open>next\<close> reads from the
  generator; \<open>session_get\<close> is \<open>session.get(url).json()\<close>; \<open>compute_get_limits\<close> is
  \<open>compute.get_limits().absolute\<close>.
\<close>

record 's connection =
  compute_get_limits :: "'s \<Rightarrow> (exn + absolute_limits) \<times> 's"
  session_get_endpoint :: "string \<Rightarrow> string \<Rightarrow> 's \<Rightarrow> (exn + string) \<times> 's"
  session_get :: "string \<Rightarrow> 's \<Rightarrow> (exn + json) \<times> 's"
  network_ips :: "ips_query \<Rightarrow> 's \<Rightarrow> (exn + sdk_floatingip list) \<times> 's"
  network_ports :: "ports_query \<Rightarrow> 's \<Rightarrow> (exn + sdk_port list) \<times> 's"
  network_find_network :: "string \<Rightarrow> 's \<Rightarrow> (exn + sdk_network option) \<times> 's"
  network_find_port :: "string \<Rightarrow> 's \<Rightarrow> (exn + sdk_port option) \<times> 's"
  network_update_ip ::
    "sdk_floatingip \<Rightarrow> string option \<Rightarrow> 's \<Rightarrow> (exn + sdk_floatingip) \<times> 's"
  compute_list_server_detail :: "'s \<Rightarrow> (exn + sdk_server list) \<times> 's"
  compute_get_server :: "string \<Rightarrow> 's \<Rightarrow> (exn + sdk_server) \<times> 's"
  image_get :: "string \<Rightarrow> 's \<Rightarrow> (exn + sdk_image) \<times> 's"
  block_store_volumes :: "'s \<Rightarrow> (exn + sdk_volume list) \<times> 's"
  block_store_get_volume :: "string \<Rightarrow> 's \<Rightarrow> (exn + sdk_volume) \<times> 's"
  compute_create_volume_attachment :: "string \<Rightarrow> string \<Rightarrow> 's \<Rightarrow> (exn + unit) \<times> 's"

text \<open>The calls made on the connection, in the order they were made.\<close>

datatype call =
    Compute_get_limits
  | Session_get_endpoint string string
  | Session_get string
  | Network_ips ips_query
  | Network_ports ports_query
  | Network_find_network string
  | Network_find_port string
  | Network_update_ip sdk_floatingip "string option"
  | Compute_list_server_detail
  | Compute_get_server string
  | Image_get string
  | Block_store_volumes
  | Block_store_get_volume string
  | Compute_create_volume_attachment string string

section \<open>The normalized resources\<close>

text \<open>
  The objects of \<open>dto\<close>, with their fields in the order of the constructor calls.
  The bytes of an image are divided by \<open>1024.0\<close> twice; the quotient is kept as a
  rational number.
\<close>

record image =
  image_id :: string
  image_vm_type :: string
  image_name :: string
  image_is_public :: bool
  image_nat_allowed :: bool
  image_size :: rat

record machine_status =
  status_type :: string
  status_name :: string
  status_details :: "string option"

record machine =
  machine_id :: string
  machine_name :: string
  machine_image_id :: string
  machine_size_id :: string
  machine_status :: machine_status
  machine_power_state :: string
  machine_task :: "string option"
  machine_internal_ip :: "string option"
  machine_external_ip :: "string option"
  machine_nat_allowed :: bool
  machine_attached_volume_ids :: "string list"
  machine_owner :: string
  machine_created :: string

record external_ip =
  external_ip :: string
  external_ip_machine_id :: "string option"

datatype volume_status =
    CREATING
  | AVAILABLE
  | ATTACHING
  | DETACHING
  | IN_USE
  | DELETING
  | ERROR
  | OTHER

record volume =
  volume_id :: string
  volume_name :: string
  volume_status :: volume_status
  volume_size :: int
  volume_machine_id :: "string option"
  volume_device :: "string option"

record quota =
  quota_resource :: string
  quota_units :: "string option"
  quota_allocated :: json
  quota_used :: json

section \<open>The scoped session\<close>

text \<open>
  The session holds what \<open>__init__\<close> stores. The world of a session is the backend
  state with the calls made so far, and the two caches \<open>functools.lru_cache\<close> keeps
  for \<open>find_image\<close> and \<open>_tenant_network\<close>: the images by id, most recently used
  first and at most 128 of them, and the tenant network once it was found.
\<close>

record 's scoped_session =
  session_username :: string
  session_tenancy_id :: string
  session_tenancy_name :: string
  session_connection :: "'s connection"
  session_secondary_network_id :: "string option"
  session_interface :: string

record 's world =
  backend :: 's
  calls :: "call list"
  image_cache :: "(string \<times> image) list"
  tenant_network_cache :: "sdk_network option option"

text \<open>
  What the provider takes from modules that are not part of it: the names of the
  members of \<open>dto.Machine.Status.Type\<close>, and \<open>dateutil.parser.parse\<close>.
\<close>

record externals =
  status_type_names :: "string list"
  dateutil_parse :: "string \<Rightarrow> exn + string"

definition invoke ::
  "call \<Rightarrow> ('s \<Rightarrow> (exn + 'a) \<times> 's) \<Rightarrow> 's world \<Rightarrow> (exn + 'a) \<times> 's world" where
  "invoke c operation w =
     (case operation (backend w) of
        (r, s') \<Rightarrow> (r, w\<lparr>backend := s', calls := calls w @ [c]\<rparr>))"

subsection \<open>Images\<close>

definition from_sdk_image :: "sdk_image \<Rightarrow> exn + image" where
  "from_sdk_image sdk_image =
     (case py_int (or_else (sdk_image_jasmin_nat_allowed sdk_image) ''1'') of
        None \<Rightarrow> Inl ValueError
      | Some n \<Rightarrow>
          (case sdk_image_size sdk_image of
             None \<Rightarrow> Inl TypeError
           | Some bytes \<Rightarrow>
               Inr \<lparr>image_id = sdk_image_id sdk_image,
                    image_vm_type = or_else (sdk_image_jasmin_type sdk_image) ''UNKNOWN'',
                    image_name = sdk_image_name sdk_image,
                    image_is_public = (sdk_image_visibility sdk_image = ''public''),
                    image_nat_allowed = (n \<noteq> 0),
                    image_size = of_int bytes / 1024 / 1024\<rparr>))"

text \<open>
  \<open>find_image\<close>: the cache is inside the decorator that converts exceptions, and
  keeps only the images that were built.
\<close>

definition find_image_cached ::
  "'s scoped_session \<Rightarrow> string \<Rightarrow> 's world \<Rightarrow> (exn + image) \<times> 's world" where
  "find_image_cached self ident w =
     (case map_of (image_cache w) ident of
        Some found \<Rightarrow>
          (Inr found,
           w\<lparr>image_cache := (ident, found) # filter (\<lambda>e. fst e \<noteq> ident) (image_cache w)\<rparr>)
      | None \<Rightarrow>
          (case and_then
                  (invoke (Image_get ident) (image_get (session_connection self) ident))
                  (\<lambda>sdk_image. lift (from_sdk_image sdk_image)) w of
             (Inl e, w') \<Rightarrow> (Inl e, w')
           | (Inr built, w') \<Rightarrow>
               (Inr built, w'\<lparr>image_cache := take 128 ((ident, built) # image_cache w')\<rparr>)))"

definition find_image ::
  "'s scoped_session \<Rightarrow> string \<Rightarrow> 's world \<Rightarrow> (exn + image) \<times> 's world" where
  "find_image self ident = converted (find_image_cached self ident)"

subsection \<open>The tenant network\<close>

definition tenant_network ::
  "'s scoped_session \<Rightarrow> 's world \<Rightarrow> (exn + sdk_network option) \<times> 's world" where
  "tenant_network self w =
     (case tenant_network_cache w of
        Some found \<Rightarrow> (Inr found, w)
      | None \<Rightarrow>
          (case and_then
                  (invoke (Network_ports (By_device_owner ''network:router_interface''))
                     (network_ports (session_connection self)
                        (By_device_owner ''network:router_interface'')))
                  (\<lambda>ports.
                     case ports of
                       [] \<Rightarrow>
                         raise (Errors ImproperlyConfiguredError
                                  ''Could not find tenancy network'')
                     | port # _ \<Rightarrow>
                         invoke (Network_find_network (port_network_id port))
                           (network_find_network (session_connection self)
                              (port_network_id port))) w of
             (Inl e, w') \<Rightarrow> (Inl e, w')
           | (Inr found, w') \<Rightarrow> (Inr found, w'\<lparr>tenant_network_cache := Some found\<rparr>)))"

subsection \<open>Machines\<close>

definition POWER_STATES :: "(int \<times> string) list" where
  "POWER_STATES =
     [(0, ''Unknown''),
      (1, ''Running''),
      (3, ''Paused''),
      (4, ''Shut down''),
      (6, ''Crashed''),
      (7, ''Suspended'')]"

definition is_object_not_found :: "exn \<Rightarrow> bool" where
  "is_object_not_found e =
     (case e of Errors c _ \<Rightarrow> c = ObjectNotFoundError | _ \<Rightarrow> False)"

text \<open>
  The first statement of \<open>_from_sdk_server\<close>: the flag of the metadata, and where
  reading it raised \<open>TypeError\<close> or \<open>KeyError\<close>, the flag of the image, or true
  when \<open>find_image\<close> raised \<open>ObjectNotFoundError\<close>.
\<close>

definition resolve_nat_allowed ::
  "'s scoped_session \<Rightarrow> sdk_server \<Rightarrow> 's world \<Rightarrow> (exn + bool) \<times> 's world" where
  "resolve_nat_allowed self sdk_server w =
     (case getitem (server_metadata sdk_server) ''jasmin_nat_allowed'' of
        Inr v \<Rightarrow>
          (case py_int v of
             None \<Rightarrow> (Inl ValueError, w)
           | Some n \<Rightarrow> (Inr (n \<noteq> 0), w))
      | Inl _ \<Rightarrow>
          (case getitem (server_image sdk_server) ''id'' of
             Inl e \<Rightarrow> (Inl e, w)
           | Inr image_ident \<Rightarrow>
               (case find_image self image_ident w of
                  (Inl e, w') \<Rightarrow>
                    if is_object_not_found e then (Inr True, w') else (Inl e, w')
                | (Inr found, w') \<Rightarrow> (Inr (image_nat_allowed found), w'))))"

text \<open>\<open>ip_of_type\<close>: the first IPv4 address of the type on the tenant network.\<close>

definition ip_of_type ::
  "sdk_server \<Rightarrow> sdk_network option \<Rightarrow> string \<Rightarrow> exn + string option" where
  "ip_of_type sdk_server network ip_type =
     (case network of
        None \<Rightarrow> Inl AttributeError
      | Some net \<Rightarrow>
          Inr (map_option address_addr
                 (find (\<lambda>a. address_version a = 4 \<and> address_type a = ip_type)
                    (case map_of (server_addresses sdk_server) (network_name net) of
                       None \<Rightarrow> []
                     | Some addresses \<Rightarrow> addresses))))"

fun volume_ids :: "py_dict list \<Rightarrow> exn + string list" where
  "volume_ids [] = Inr []"
| "volume_ids (v # vs) =
     (case getitem (Some v) ''id'' of
        Inl e \<Rightarrow> Inl e
      | Inr ident \<Rightarrow> (case volume_ids vs of Inl e \<Rightarrow> Inl e | Inr idents \<Rightarrow> Inr (ident # idents)))"

text \<open>
  The call of \<open>dto.Machine\<close> that ends \<open>_from_sdk_server\<close>: its arguments are
  evaluated from left to right, and the first one that raises ends the call.
\<close>

definition build_machine ::
  "externals \<Rightarrow> sdk_server \<Rightarrow> bool \<Rightarrow> string \<Rightarrow> string option \<Rightarrow> string option \<Rightarrow>
   sdk_network option \<Rightarrow> exn + machine" where
  "build_machine ext sdk_server nat_allowed status fault task network =
     (case getitem (server_image sdk_server) ''id'' of
        Inl e \<Rightarrow> Inl e
      | Inr image_ident \<Rightarrow>
     (case getitem (server_flavor sdk_server) ''id'' of
        Inl e \<Rightarrow> Inl e
      | Inr flavor_ident \<Rightarrow>
     (case map_of POWER_STATES (server_power_state sdk_server) of
        None \<Rightarrow> Inl KeyError
      | Some power_state \<Rightarrow>
     (case ip_of_type sdk_server network ''fixed'' of
        Inl e \<Rightarrow> Inl e
      | Inr fixed \<Rightarrow>
     (case ip_of_type sdk_server network ''floating'' of
        Inl e \<Rightarrow> Inl e
      | Inr floating \<Rightarrow>
     (case volume_ids (server_attached_volumes sdk_server) of
        Inl e \<Rightarrow> Inl e
      | Inr attached \<Rightarrow>
     (case dateutil_parse ext (server_created_at sdk_server) of
        Inl e \<Rightarrow> Inl e
      | Inr created \<Rightarrow>
          Inr \<lparr>machine_id = server_id sdk_server,
               machine_name = server_name sdk_server,
               machine_image_id = image_ident,
               machine_size_id = flavor_ident,
               machine_status =
                 \<lparr>status_type =
                    (if status \<in> set (status_type_names ext) then status else ''OTHER''),
                  status_name = status,
                  status_details =
                    (case fault of
                       None \<Rightarrow> None
                     | Some f \<Rightarrow> if f = [] then None else Some (replace_resource_names f))\<rparr>,
               machine_power_state = power_state,
               machine_task =
                 (case task of
                    None \<Rightarrow> None
                  | Some t \<Rightarrow> if t = [] then None else Some (capitalize t)),
               machine_internal_ip = fixed,
               machine_external_ip = floating,
               machine_nat_allowed = nat_allowed,
               machine_attached_volume_ids = attached,
               machine_owner = server_user_id sdk_server,
               machine_created = created\<rparr>)))))))"

definition from_sdk_server ::
  "externals \<Rightarrow> 's scoped_session \<Rightarrow> sdk_server \<Rightarrow> 's world \<Rightarrow> (exn + machine) \<times> 's world" where
  "from_sdk_server ext self sdk_server =
     and_then (resolve_nat_allowed self sdk_server) (\<lambda>nat_allowed.
       let status = server_status sdk_server;
           fault = (case server_fault sdk_server of
                      None \<Rightarrow> None
                    | Some d \<Rightarrow> map_of d ''message'');
           task = server_task_state sdk_server
       in and_then (tenant_network self) (\<lambda>network.
            lift (build_machine ext sdk_server nat_allowed status fault task network)))"

definition machines ::
  "externals \<Rightarrow> 's scoped_session \<Rightarrow> 's world \<Rightarrow> (exn + machine list) \<times> 's world" where
  "machines ext self =
     converted
       (and_then
          (invoke Compute_list_server_detail
             (compute_list_server_detail (session_connection self)))
          (for_each (from_sdk_server ext self)))"

definition find_machine ::
  "externals \<Rightarrow> 's scoped_session \<Rightarrow> string \<Rightarrow> 's world \<Rightarrow> (exn + machine) \<times> 's world" where
  "find_machine ext self ident =
     converted
       (and_then
          (invoke (Compute_get_server ident)
             (compute_get_server (session_connection self) ident))
          (from_sdk_server ext self))"

subsection \<open>Quotas\<close>

definition quotas ::
  "'s scoped_session \<Rightarrow> 's world \<Rightarrow> (exn + quota list) \<times> 's world" where
  "quotas self =
     converted
       (and_then
          (invoke Compute_get_limits (compute_get_limits (session_connection self)))
          (\<lambda>compute_limits.
        and_then
          (invoke (Session_get_endpoint ''network'' (session_interface self))
             (session_get_endpoint (session_connection self) ''network''
                (session_interface self)))
          (\<lambda>network_ep.
        and_then
          (invoke (Session_get (network_ep @ ''/v2.0/quotas/'' @ session_tenancy_id self))
             (session_get (session_connection self)
                (network_ep @ ''/v2.0/quotas/'' @ session_tenancy_id self)))
          (\<lambda>network_quotas.
        and_then (lift (json_getitem network_quotas ''quota'')) (\<lambda>network_quota.
        and_then (lift (json_getitem network_quota ''floatingip'')) (\<lambda>floatingip.
        and_then
          (invoke (Network_ips All_ips) (network_ips (session_connection self) All_ips))
          (\<lambda>ips.
        and_then
          (invoke (Session_get_endpoint ''volume'' (session_interface self))
             (session_get_endpoint (session_connection self) ''volume''
                (session_interface self)))
          (\<lambda>volume_ep.
        and_then
          (invoke (Session_get (volume_ep @ ''/limits''))
             (session_get (session_connection self) (volume_ep @ ''/limits'')))
          (\<lambda>volume_limits.
        and_then (lift (json_getitem volume_limits ''limits'')) (\<lambda>limits.
        and_then (lift (json_getitem limits ''absolute'')) (\<lambda>absolute.
        and_then (lift (json_getitem absolute ''maxTotalVolumeGigabytes'')) (\<lambda>max_gigabytes.
        and_then (lift (json_getitem absolute ''totalGigabytesUsed'')) (\<lambda>gigabytes_used.
        and_then (lift (json_getitem absolute ''maxTotalVolumes'')) (\<lambda>max_volumes.
        and_then (lift (json_getitem absolute ''totalVolumesUsed'')) (\<lambda>volumes_used.
        return
          [\<lparr>quota_resource = ''cpus'', quota_units = None,
            quota_allocated = JNum (total_cores compute_limits),
            quota_used = JNum (total_cores_used compute_limits)\<rparr>,
           \<lparr>quota_resource = ''ram'', quota_units = Some ''MB'',
            quota_allocated = JNum (total_ram compute_limits),
            quota_used = JNum (total_ram_used compute_limits)\<rparr>,
           \<lparr>quota_resource = ''machines'', quota_units = None,
            quota_allocated = JNum (instances compute_limits),
            quota_used = JNum (instances_used compute_limits)\<rparr>,
           \<lparr>quota_resource = ''external_ips'', quota_units = None,
            quota_allocated = floatingip,
            quota_used = JNum (int (length ips))\<rparr>,
           \<lparr>quota_resource = ''storage'', quota_units = Some ''GB'',
            quota_allocated = max_gigabytes,
            quota_used = gigabytes_used\<rparr>,
           \<lparr>quota_resource = ''volumes'', quota_units = None,
            quota_allocated = max_volumes,
            quota_used = volumes_used\<rparr>])))))))))))))))"

subsection \<open>External IPs\<close>

datatype machine_arg = Machine_object machine | Machine_ident string

datatype ip_arg = Ip_object external_ip | Ip_address string

definition from_sdk_floatingip ::
  "'s scoped_session \<Rightarrow> sdk_floatingip \<Rightarrow> 's world \<Rightarrow> (exn + external_ip) \<times> 's world" where
  "from_sdk_floatingip self sdk_floatingip =
     (case floatingip_port_id sdk_floatingip of
        None \<Rightarrow>
          return \<lparr>external_ip = floatingip_address sdk_floatingip,
                  external_ip_machine_id = None\<rparr>
      | Some bound_port \<Rightarrow>
          if bound_port = [] then
            return \<lparr>external_ip = floatingip_address sdk_floatingip,
                    external_ip_machine_id = None\<rparr>
          else
            and_then
              (invoke (Network_find_port bound_port)
                 (network_find_port (session_connection self) bound_port))
              (\<lambda>port.
                 case port of
                   None \<Rightarrow> raise AttributeError
                 | Some p \<Rightarrow>
                     return \<lparr>external_ip = floatingip_address sdk_floatingip,
                             external_ip_machine_id = Some (port_device_id p)\<rparr>))"

text \<open>\<open>machine if isinstance(machine, dto.Machine) else self.find_machine(machine)\<close>.\<close>

definition machine_or_find ::
  "externals \<Rightarrow> 's scoped_session \<Rightarrow> machine_arg \<Rightarrow> 's world \<Rightarrow>
   (exn + machine) \<times> 's world" where
  "machine_or_find ext self machine_given =
     (case machine_given of
        Machine_object m \<Rightarrow> return m
      | Machine_ident ident \<Rightarrow> find_machine ext self ident)"

definition ip_address :: "ip_arg \<Rightarrow> string" where
  "ip_address ip_given =
     (case ip_given of Ip_object e \<Rightarrow> external_ip e | Ip_address a \<Rightarrow> a)"

definition attach_external_ip ::
  "externals \<Rightarrow> 's scoped_session \<Rightarrow> ip_arg \<Rightarrow> machine_arg \<Rightarrow> 's world \<Rightarrow>
   (exn + external_ip) \<times> 's world" where
  "attach_external_ip ext self ip_given machine_given =
     converted
       (and_then (machine_or_find ext self machine_given)
          (\<lambda>machine.
             let ip = ip_address ip_given in
             if \<not> machine_nat_allowed machine then
               raise (Errors InvalidOperationError
                        ''Machine is not allowed to have an external IP address.'')
             else
        and_then (tenant_network self) (\<lambda>tenant_net.
          case tenant_net of
            None \<Rightarrow> raise AttributeError
          | Some net \<Rightarrow>
        and_then
          (invoke
             (Network_ports (By_device_and_network (machine_id machine) (network_id net)))
             (network_ports (session_connection self)
                (By_device_and_network (machine_id machine) (network_id net))))
          (\<lambda>ports.
             case ports of
               [] \<Rightarrow>
                 raise (Errors ImproperlyConfiguredError
                          ''Machine is not connected to tenancy network.'')
             | port # _ \<Rightarrow>
        and_then
          (invoke (Network_ips (By_port_id (port_id port)))
             (network_ips (session_connection self) (By_port_id (port_id port))))
          (\<lambda>bound.
        and_then
          (case bound of
             [] \<Rightarrow> return ()
           | current # _ \<Rightarrow>
               and_then
                 (invoke (Network_update_ip current None)
                    (network_update_ip (session_connection self) current None))
                 (\<lambda>_. return ()))
          (\<lambda>_.
        and_then
          (invoke (Network_ips (By_floating_ip_address ip))
             (network_ips (session_connection self) (By_floating_ip_address ip)))
          (\<lambda>fips.
             case fips of
               [] \<Rightarrow>
                 raise (Errors ObjectNotFoundError
                          (''Could not find external IP '' @ [CHR 0x27] @ ip @ [CHR 0x27]))
             | fip # _ \<Rightarrow>
                 and_then
                   (invoke (Network_update_ip fip (Some (port_id port)))
                      (network_update_ip (session_connection self) fip
                         (Some (port_id port))))
                   (from_sdk_floatingip self))))))))"

subsection \<open>Volumes\<close>

definition VOLUME_STATUSES :: "(string \<times> volume_status) list" where
  "VOLUME_STATUSES =
     [(''creating'', CREATING),
      (''available'', AVAILABLE),
      (''attaching'', ATTACHING),
      (''detaching'', DETACHING),
      (''in-use'', IN_USE),
      (''deleting'', DELETING),
      (''error'', ERROR),
      (''error_deleting'', ERROR),
      (''error_backing-up'', ERROR),
      (''error_restoring'', ERROR),
      (''error_extending'', ERROR)]"

text \<open>\<open>_VOLUME_STATUSES.get(status.lower(), dto.Volume.Status.OTHER)\<close>.\<close>

definition mapped_status :: "string \<Rightarrow> volume_status" where
  "mapped_status status =
     (case map_of VOLUME_STATUSES (lower status) of
        None \<Rightarrow> OTHER
      | Some mapped \<Rightarrow> mapped)"

text \<open>\<open>attachment[key] if attachment else None\<close>: an empty dictionary is false.\<close>

definition attachment_item :: "py_dict option \<Rightarrow> string \<Rightarrow> exn + string option" where
  "attachment_item attachment k =
     (case attachment of
        None \<Rightarrow> Inr None
      | Some a \<Rightarrow>
          if a = [] then Inr None
          else (case map_of a k of None \<Rightarrow> Inl KeyError | Some v \<Rightarrow> Inr (Some v)))"

definition from_sdk_volume :: "sdk_volume \<Rightarrow> exn + volume" where
  "from_sdk_volume sdk_volume =
     (let status = mapped_status (sdk_volume_status sdk_volume);
          attachment = (case sdk_volume_attachments sdk_volume of
                          [] \<Rightarrow> None
                        | first # _ \<Rightarrow> Some first)
      in
      case attachment_item attachment ''server_id'' of
        Inl e \<Rightarrow> Inl e
      | Inr server \<Rightarrow>
          (case attachment_item attachment ''device'' of
             Inl e \<Rightarrow> Inl e
           | Inr device \<Rightarrow>
               Inr \<lparr>volume_id = sdk_volume_id sdk_volume,
                    volume_name =
                      or_else (sdk_volume_name sdk_volume)
                        (take 13 (sdk_volume_id sdk_volume)),
                    volume_status = status,
                    volume_size = sdk_volume_size sdk_volume,
                    volume_machine_id = server,
                    volume_device = device\<rparr>))"

definition volumes ::
  "'s scoped_session \<Rightarrow> 's world \<Rightarrow> (exn + volume list) \<times> 's world" where
  "volumes self =
     converted
       (and_then
          (invoke Block_store_volumes (block_store_volumes (session_connection self)))
          (for_each (\<lambda>v. lift (from_sdk_volume v))))"

definition find_volume ::
  "'s scoped_session \<Rightarrow> string \<Rightarrow> 's world \<Rightarrow> (exn + volume) \<times> 's world" where
  "find_volume self ident =
     converted
       (and_then
          (invoke (Block_store_get_volume ident)
             (block_store_get_volume (session_connection self) ident))
          (\<lambda>v. lift (from_sdk_volume v)))"

datatype volume_arg = Volume_object volume | Volume_ident string

text \<open>\<open>volume if isinstance(volume, dto.Volume) else self.find_volume(volume)\<close>.\<close>

definition volume_or_find ::
  "'s scoped_session \<Rightarrow> volume_arg \<Rightarrow> 's world \<Rightarrow> (exn + volume) \<times> 's world" where
  "volume_or_find self volume_given =
     (case volume_given of
        Volume_object v \<Rightarrow> return v
      | Volume_ident ident \<Rightarrow> find_volume self ident)"

definition machine_ident :: "machine_arg \<Rightarrow> string" where
  "machine_ident machine_given =
     (case machine_given of
        Machine_object m \<Rightarrow> machine_id m
      | Machine_ident ident \<Rightarrow> ident)"

definition attach_volume ::
  "'s scoped_session \<Rightarrow> volume_arg \<Rightarrow> machine_arg \<Rightarrow> 's world \<Rightarrow>
   (exn + volume) \<times> 's world" where
  "attach_volume self volume_given machine_given =
     converted
       (and_then (volume_or_find self volume_given)
          (\<lambda>volume.
             let machine = machine_ident machine_given in
             if volume_machine_id volume = Some machine then return volume
             else if volume_status volume \<noteq> AVAILABLE then
               raise (Errors InvalidOperationError
                        ''Volume must be AVAILABLE before attaching.'')
             else
               and_then
                 (invoke (Compute_create_volume_attachment machine (volume_id volume))
                    (compute_create_volume_attachment (session_connection self) machine
                       (volume_id volume)))
                 (\<lambda>_. find_volume self (volume_id volume))))"

section \<open>Authentication and the unscoped session\<close>

text \<open>
  A response of \<open>requests\<close>: its status, its headers (looked up without regard to
  case) and what \<open>json()\<close> gives. The body of the project listing is read as the
  list under \<open>projects\<close>, \<open>None\<close> when the key is absent; a project is read by its
  keys \<open>id\<close>, \<open>name\<close> and \<open>enabled\<close>, each \<open>None\<close> when absent.
\<close>

record 'b response =
  response_status_code :: int
  response_headers :: "(string \<times> string) list"
  response_json :: "exn + 'b"

record project =
  project_id :: "string option"
  project_name :: "string option"
  project_enabled :: "bool option"

record tenancy =
  tenancy_id :: string
  tenancy_name :: string

record provider =
  provider_auth_url :: string
  provider_domain :: string
  provider_interface :: string
  provider_secondary_network_id :: "string option"
  provider_verify_ssl :: bool

record unscoped_session =
  unscoped_auth_url :: string
  unscoped_username :: string
  unscoped_token :: string
  unscoped_interface :: string
  unscoped_secondary_network_id :: "string option"
  unscoped_verify_ssl :: bool

text \<open>The identity of the token request, and the configuration of a connection.\<close>

record password_identity =
  identity_user_name :: string
  identity_domain_name :: string
  identity_password :: string

record cloud_config =
  config_auth_url :: string
  config_token :: string
  config_project_id :: string
  config_interface :: string
  config_verify :: bool

text \<open>
  The platform as the unscoped layer reaches it: \<open>requests.post\<close> and
  \<open>requests.get\<close>, which return a response or raise, and
  \<open>connection.from_config\<close>.
\<close>

record 's platform =
  requests_post :: "string \<Rightarrow> password_identity \<Rightarrow> bool \<Rightarrow> exn + unit response"
  requests_get ::
    "string \<Rightarrow> (string \<times> string) list \<Rightarrow> bool \<Rightarrow> exn + (project list option) response"
  from_config :: "cloud_config \<Rightarrow> exn + 's connection"

definition header :: "(string \<times> string) list \<Rightarrow> string \<Rightarrow> exn + string" where
  "header hs k =
     (case map_of (map (\<lambda>kv. (lower (fst kv), snd kv)) hs) (lower k) of
        None \<Rightarrow> Inl KeyError
      | Some v \<Rightarrow> Inr v)"

definition raise_for_status :: "'b response \<Rightarrow> exn option" where
  "raise_for_status res =
     (if 400 \<le> response_status_code res \<and> response_status_code res < 600
      then Some (RequestsHTTPError (response_status_code res))
      else None)"

definition authenticate ::
  "'s platform \<Rightarrow> provider \<Rightarrow> string \<Rightarrow> string \<Rightarrow> exn + unscoped_session" where
  "authenticate platform self username password =
     (case requests_post platform (provider_auth_url self @ ''/auth/tokens'')
             \<lparr>identity_user_name = username,
              identity_domain_name = provider_domain self,
              identity_password = password\<rparr>
             (provider_verify_ssl self) of
        Inl e \<Rightarrow> Inl e
      | Inr res \<Rightarrow>
          (case raise_for_status res of
             Some (RequestsHTTPError status_code) \<Rightarrow>
               if status_code = 401
               then Inl (Errors AuthenticationError ''Invalid username or password'')
               else Inl (Errors CommunicationError ''Unexpected response from OpenStack'')
           | Some RequestsConnectionError \<Rightarrow>
               Inl (Errors CommunicationError ''Error with HTTP connection'')
           | Some e \<Rightarrow> Inl e
           | None \<Rightarrow>
               (case header (response_headers res) ''X-Subject-Token'' of
                  Inl e \<Rightarrow>
                    if e = KeyError
                    then Inl (Errors CommunicationError
                                ''Unable to extract token from response'')
                    else Inl e
                | Inr token \<Rightarrow>
                    Inr \<lparr>unscoped_auth_url = provider_auth_url self,
                         unscoped_username = username,
                         unscoped_token = token,
                         unscoped_interface = provider_interface self,
                         unscoped_secondary_network_id = provider_secondary_network_id self,
                         unscoped_verify_ssl = provider_verify_ssl self\<rparr>)))"

text \<open>
  The generator of \<open>tenancies\<close>: the condition \<open>p['enabled']\<close> first, then
  \<open>p['id']\<close> and \<open>p['name']\<close>.
\<close>

fun enabled_tenancies :: "project list \<Rightarrow> exn + tenancy list" where
  "enabled_tenancies [] = Inr []"
| "enabled_tenancies (p # ps) =
     (case project_enabled p of
        None \<Rightarrow> Inl KeyError
      | Some False \<Rightarrow> enabled_tenancies ps
      | Some True \<Rightarrow>
          (case project_id p of
             None \<Rightarrow> Inl KeyError
           | Some ident \<Rightarrow>
               (case project_name p of
                  None \<Rightarrow> Inl KeyError
                | Some name \<Rightarrow>
                    (case enabled_tenancies ps of
                       Inl e \<Rightarrow> Inl e
                     | Inr ts \<Rightarrow> Inr (\<lparr>tenancy_id = ident, tenancy_name = name\<rparr> # ts)))))"

definition tenancies :: "'s platform \<Rightarrow> unscoped_session \<Rightarrow> exn + tenancy list" where
  "tenancies platform self =
     (case requests_get platform (unscoped_auth_url self @ ''/auth/projects'')
             [(''X-Auth-Token'', unscoped_token self)] (unscoped_verify_ssl self) of
        Inl e \<Rightarrow> Inl e
      | Inr res \<Rightarrow>
          (case raise_for_status res of
             Some (RequestsHTTPError status_code) \<Rightarrow>
               if status_code = 401
               then Inl (Errors AuthenticationError ''Your session has expired'')
               else if status_code = 403
               then Inl (Errors PermissionDeniedError ''Permission denied'')
               else Inl (Errors CommunicationError ''Unexpected response from OpenStack'')
           | Some RequestsConnectionError \<Rightarrow>
               Inl (Errors CommunicationError ''Error with HTTP connection'')
           | Some e \<Rightarrow> Inl e
           | None \<Rightarrow>
               (case (case response_json res of
                        Inl e \<Rightarrow> Inl e
                      | Inr None \<Rightarrow> Inl KeyError
                      | Inr (Some projects) \<Rightarrow> enabled_tenancies projects) of
                  Inl e \<Rightarrow>
                    if e = KeyError
                    then Inl (Errors CommunicationError
                                ''Unable to extract tenancy information from response'')
                    else Inl e
                | Inr ts \<Rightarrow> Inr ts)))"

datatype tenancy_arg = Tenancy_object tenancy | Tenancy_ident string

definition is_sdk_http_exception :: "exn \<Rightarrow> bool" where
  "is_sdk_http_exception e =
     (case e of ResourceNotFound _ _ \<Rightarrow> True | HttpException _ _ \<Rightarrow> True | _ \<Rightarrow> False)"

definition sdk_status_code :: "exn \<Rightarrow> int" where
  "sdk_status_code e =
     (case e of ResourceNotFound c _ \<Rightarrow> c | HttpException c _ \<Rightarrow> c | _ \<Rightarrow> 0)"

text \<open>
  \<open>scoped_session\<close>, inside its decorator: the tenancy is looked up among
  \<open>tenancies()\<close> when an id was given; an SDK \<open>HttpException\<close> of
  \<open>connection.from_config\<close> with status 401 or 403 becomes \<open>ObjectNotFoundError\<close>,
  any other is raised again.
\<close>

definition tenancy_or_find ::
  "'s platform \<Rightarrow> unscoped_session \<Rightarrow> tenancy_arg \<Rightarrow> exn + tenancy" where
  "tenancy_or_find platform self given =
     (case given of
        Tenancy_object t \<Rightarrow> Inr t
      | Tenancy_ident ident \<Rightarrow>
          (case tenancies platform self of
             Inl e \<Rightarrow> Inl e
           | Inr ts \<Rightarrow>
               (case find (\<lambda>t. tenancy_id t = ident) ts of
                  None \<Rightarrow>
                    Inl (Errors ObjectNotFoundError
                           (''Could not find tenancy with ID '' @ ident))
                | Some t \<Rightarrow> Inr t)))"

definition get_one_cloud :: "unscoped_session \<Rightarrow> tenancy \<Rightarrow> cloud_config" where
  "get_one_cloud self tenancy =
     \<lparr>config_auth_url = unscoped_auth_url self,
      config_token = unscoped_token self,
      config_project_id = tenancy_id tenancy,
      config_interface = unscoped_interface self,
      config_verify = unscoped_verify_ssl self\<rparr>"

definition scoped_session_body ::
  "'s platform \<Rightarrow> unscoped_session \<Rightarrow> tenancy_arg \<Rightarrow> exn + 's scoped_session" where
  "scoped_session_body platform self given =
     (case tenancy_or_find platform self given of
        Inl e \<Rightarrow> Inl e
      | Inr tenancy \<Rightarrow>
          (case from_config platform (get_one_cloud self tenancy) of
             Inl e \<Rightarrow>
               if is_sdk_http_exception e then
                 (if sdk_status_code e \<in> {401, 403}
                  then Inl (Errors ObjectNotFoundError
                              (''Could not find tenancy with ID '' @ tenancy_id tenancy))
                  else Inl e)
               else Inl e
           | Inr conn \<Rightarrow>
               Inr \<lparr>session_username = unscoped_username self,
                    session_tenancy_id = tenancy_id tenancy,
                    session_tenancy_name = tenancy_name tenancy,
                    session_connection = conn,
                    session_secondary_network_id = unscoped_secondary_network_id self,
                    session_interface = unscoped_interface self\<rparr>))"

definition scoped_session ::
  "'s platform \<Rightarrow> unscoped_session \<Rightarrow> tenancy_arg \<Rightarrow> exn + 's scoped_session" where
  "scoped_session platform self given =
     convert_sdk_exceptions (scoped_session_body platform self given)"

text \<open>
  The HTTP status that a failure carries, whichever library raised it: the
  \<open>status_code\<close> of an SDK \<open>HttpException\<close>, the \<open>http_status\<close> of a keystoneauth
  \<open>HttpError\<close>, the status of the response in an \<open>HTTPError\<close> of \<open>requests\<close>.
\<close>

definition failure_status :: "exn \<Rightarrow> int option" where
  "failure_status e =
     (case e of
        ResourceNotFound c _ \<Rightarrow> Some c
      | HttpException c _ \<Rightarrow> Some c
      | KeystoneHttpError c _ \<Rightarrow> Some c
      | RequestsHTTPError c \<Rightarrow> Some c
      | _ \<Rightarrow> None)"

section \<open>The order of resolution, as specified\<close>

text \<open>
  The NAT-allowed flag of a machine as the specification words it, for a server and
  the world in which it is converted: the metadata's flag where the metadata carries
  one; else the flag of the source image where \<open>find_image\<close> resolves it; else true
  where \<open>find_image\<close> fails with a not-found error.
\<close>

definition resolved_in_order ::
  "'s scoped_session \<Rightarrow> sdk_server \<Rightarrow> 's world \<Rightarrow> bool \<Rightarrow> bool" where
  "resolved_in_order self sdk_server w flag =
     (case getitem (server_metadata sdk_server) ''jasmin_nat_allowed'' of
        Inr v \<Rightarrow> (case py_int v of None \<Rightarrow> False | Some n \<Rightarrow> flag = (n \<noteq> 0))
      | Inl _ \<Rightarrow>
          (case getitem (server_image sdk_server) ''id'' of
             Inl _ \<Rightarrow> False
           | Inr image_ident \<Rightarrow>
               (case fst (find_image self image_ident w) of
                  Inr found \<Rightarrow> flag = image_nat_allowed found
                | Inl e \<Rightarrow> is_object_not_found e \<and> flag)))"

section \<open>Example backends\<close>

text \<open>
  Small backends on which the operations are run: a connection whose every call
  fails, to be overridden call by call, a session on a connection, and a world in
  which nothing was called or cached yet.
\<close>

definition unavailable :: "'s connection" where
  "unavailable =
     \<lparr>compute_get_limits = (\<lambda>s. (Inl SDKException, s)),
      session_get_endpoint = (\<lambda>service_type interface s. (Inl SDKException, s)),
      session_get = (\<lambda>url s. (Inl SDKException, s)),
      network_ips = (\<lambda>query s. (Inl SDKException, s)),
      network_ports = (\<lambda>query s. (Inl SDKException, s)),
      network_find_network = (\<lambda>ident s. (Inl SDKException, s)),
      network_find_port = (\<lambda>ident s. (Inl SDKException, s)),
      network_update_ip = (\<lambda>ip port s. (Inl SDKException, s)),
      compute_list_server_detail = (\<lambda>s. (Inl SDKException, s)),
      compute_get_server = (\<lambda>ident s. (Inl SDKException, s)),
      image_get = (\<lambda>ident s. (Inl SDKException, s)),
      block_store_volumes = (\<lambda>s. (Inl SDKException, s)),
      block_store_get_volume = (\<lambda>ident s. (Inl SDKException, s)),
      compute_create_volume_attachment = (\<lambda>server volume s. (Inl SDKException, s))\<rparr>"

definition session_on :: "'s connection \<Rightarrow> 's scoped_session" where
  "session_on conn =
     \<lparr>session_username = ''alice'',
      session_tenancy_id = ''t1'',
      session_tenancy_name = ''tenancy one'',
      session_connection = conn,
      session_secondary_network_id = None,
      session_interface = ''public''\<rparr>"

definition fresh :: "'s \<Rightarrow> 's world" where
  "fresh s = \<lparr>backend = s, calls = [], image_cache = [], tenant_network_cache = None\<rparr>"

text \<open>A block store with one volume that the backend reports as \<open>error_managing\<close>.\<close>

definition managing_volume :: sdk_volume where
  "managing_volume =
     \<lparr>sdk_volume_id = ''0123456789abcdef'',
      sdk_volume_name = None,
      sdk_volume_status = ''error_managing'',
      sdk_volume_size = 10,
      sdk_volume_attachments = []\<rparr>"

definition volume_store :: "unit connection" where
  "volume_store =
     unavailable
       \<lparr>block_store_volumes := (\<lambda>s. (Inr [managing_volume], s)),
        block_store_get_volume := (\<lambda>ident s. (Inr managing_volume, s))\<rparr>"

text \<open>A block store with one volume in use, attached to the machine \<open>m1\<close>.\<close>

definition attached_volume :: sdk_volume where
  "attached_volume =
     \<lparr>sdk_volume_id = ''vol1'',
      sdk_volume_name = Some ''data'',
      sdk_volume_status = ''in-use'',
      sdk_volume_size = 20,
      sdk_volume_attachments = [[(''server_id'', ''m1''), (''device'', ''/dev/vdb'')]]\<rparr>"

definition attached_store :: "unit connection" where
  "attached_store =
     unavailable\<lparr>block_store_get_volume := (\<lambda>ident s. (Inr attached_volume, s))\<rparr>"

text \<open>
  A backend for the quotas: two floating IPs are allocated, while the network service
  reports a limit of five and a usage counter of seven.
\<close>

definition two_floating_ips :: "sdk_floatingip list" where
  "two_floating_ips =
     [\<lparr>floatingip_id = ''f1'', floatingip_address = ''203.0.113.5'',
       floatingip_port_id = Some ''p1''\<rparr>,
      \<lparr>floatingip_id = ''f2'', floatingip_address = ''203.0.113.6'',
       floatingip_port_id = None\<rparr>]"

definition quota_backend :: "unit connection" where
  "quota_backend =
     unavailable
       \<lparr>compute_get_limits := (\<lambda>s.
          (Inr \<lparr>total_cores = 20, total_cores_used = 4, total_ram = 51200,
                total_ram_used = 8192, instances = 10, instances_used = 2\<rparr>, s)),
        session_get_endpoint := (\<lambda>service_type interface s.
          (Inr (''https://'' @ service_type), s)),
        session_get := (\<lambda>url s.
          (if url = ''https://network/v2.0/quotas/t1''
           then Inr (JObj [(''quota'', JObj [(''floatingip'', JNum 5)]),
                           (''used'', JObj [(''floatingip'', JNum 7)])])
           else if url = ''https://volume/limits''
           then Inr (JObj [(''limits'', JObj [(''absolute'',
                  JObj [(''maxTotalVolumeGigabytes'', JNum 1000),
                        (''totalGigabytesUsed'', JNum 30),
                        (''maxTotalVolumes'', JNum 10),
                        (''totalVolumesUsed'', JNum 3)])])])
           else Inl (KeystoneHttpError 404 ''Not Found''), s)),
        network_ips := (\<lambda>query s. (Inr two_floating_ips, s))\<rparr>"

text \<open>
  A cloud with one server on the tenant network, whose metadata and power state are
  given, and one outcome for every image lookup.
\<close>

definition example_externals :: externals where
  "example_externals =
     \<lparr>status_type_names = [''BUILD'', ''ACTIVE'', ''ERROR'', ''OTHER''],
      dateutil_parse = Inr\<rparr>"

definition web_server :: "py_dict option \<Rightarrow> int \<Rightarrow> sdk_server" where
  "web_server metadata power_state =
     \<lparr>server_id = ''m1'',
      server_name = ''web'',
      server_image = Some [(''id'', ''img1'')],
      server_flavor = Some [(''id'', ''small'')],
      server_metadata = metadata,
      server_status = ''ACTIVE'',
      server_fault = None,
      server_task_state = None,
      server_power_state = power_state,
      server_addresses =
        [(''tenant-net'',
          [\<lparr>address_addr = ''10.0.0.5'', address_version = 4, address_type = ''fixed''\<rparr>,
           \<lparr>address_addr = ''203.0.113.5'', address_version = 4,
            address_type = ''floating''\<rparr>])],
      server_attached_volumes = [],
      server_user_id = ''alice'',
      server_created_at = ''2018-05-01T12:00:00Z''\<rparr>"

definition tenant_net :: sdk_network where
  "tenant_net = \<lparr>network_id = ''net1'', network_name = ''tenant-net''\<rparr>"

definition router_port :: sdk_port where
  "router_port =
     \<lparr>port_id = ''rp1'', port_device_id = ''router1'', port_network_id = ''net1''\<rparr>"

definition no_nat_image :: sdk_image where
  "no_nat_image =
     \<lparr>sdk_image_id = ''img1'',
      sdk_image_jasmin_type = None,
      sdk_image_name = ''centos'',
      sdk_image_visibility = ''public'',
      sdk_image_jasmin_nat_allowed = Some ''0'',
      sdk_image_size = Some 1048576\<rparr>"

definition cloud :: "sdk_server \<Rightarrow> exn + sdk_image \<Rightarrow> unit connection" where
  "cloud server image_outcome =
     unavailable
       \<lparr>compute_get_server := (\<lambda>ident s. (Inr server, s)),
        compute_list_server_detail := (\<lambda>s. (Inr [server], s)),
        image_get := (\<lambda>ident s. (image_outcome, s)),
        network_ports := (\<lambda>query s. (Inr [router_port], s)),
        network_find_network := (\<lambda>ident s. (Inr (Some tenant_net), s))\<rparr>"

text \<open>
  A network service whose state is the list of floating IPs: a listing filters them,
  \<open>update_ip\<close> rebinds the one with the id of the given IP. The machine \<open>m1\<close> has
  the port \<open>p1\<close> on the tenant network, and one floating IP is bound to that port.
\<close>

definition machine_port :: sdk_port where
  "machine_port = \<lparr>port_id = ''p1'', port_device_id = ''m1'', port_network_id = ''net1''\<rparr>"

definition answers :: "ips_query \<Rightarrow> sdk_floatingip \<Rightarrow> bool" where
  "answers query ip =
     (case query of
        All_ips \<Rightarrow> True
      | By_port_id port \<Rightarrow> floatingip_port_id ip = Some port
      | By_floating_ip_address address \<Rightarrow> floatingip_address ip = address)"

definition floating_network :: "(sdk_floatingip list) connection" where
  "floating_network =
     unavailable
       \<lparr>network_ports := (\<lambda>query s.
          (case query of
             By_device_owner owner \<Rightarrow> Inr [router_port]
           | By_device_and_network device network \<Rightarrow> Inr [machine_port], s)),
        network_find_network := (\<lambda>ident s. (Inr (Some tenant_net), s)),
        network_find_port := (\<lambda>ident s. (Inr (Some machine_port), s)),
        network_ips := (\<lambda>query s. (Inr (filter (answers query) s), s)),
        network_update_ip := (\<lambda>ip port s.
          (Inr (ip\<lparr>floatingip_port_id := port\<rparr>),
           map (\<lambda>other. if floatingip_id other = floatingip_id ip
                         then other\<lparr>floatingip_port_id := port\<rparr> else other) s))\<rparr>"

definition web_machine :: machine where
  "web_machine =
     \<lparr>machine_id = ''m1'', machine_name = ''web'',
      machine_image_id = ''img1'', machine_size_id = ''small'',
      machine_status =
        \<lparr>status_type = ''ACTIVE'', status_name = ''ACTIVE'', status_details = None\<rparr>,
      machine_power_state = ''Running'', machine_task = None,
      machine_internal_ip = Some ''10.0.0.5'',
      machine_external_ip = Some ''203.0.113.5'',
      machine_nat_allowed = True, machine_attached_volume_ids = [],
      machine_owner = ''alice'',
      machine_created = ''2018-05-01T12:00:00Z''\<rparr>"

definition bound_ip :: sdk_floatingip where
  "bound_ip =
     \<lparr>floatingip_id = ''f1'', floatingip_address = ''203.0.113.5'',
      floatingip_port_id = Some ''p1''\<rparr>"

text \<open>
  An identity service that answers every token request with one status and one set
  of headers, lists one enabled project, and fails every scoping with one exception.
\<close>

definition keystone :: "int \<Rightarrow> (string \<times> string) list \<Rightarrow> exn \<Rightarrow> unit platform" where
  "keystone status_code headers scoping_failure =
     \<lparr>requests_post = (\<lambda>url identity verify.
        Inr \<lparr>response_status_code = status_code, response_headers = headers,
             response_json = Inr ()\<rparr>),
      requests_get = (\<lambda>url headers verify.
        Inr \<lparr>response_status_code = 200, response_headers = [],
             response_json =
               Inr (Some [\<lparr>project_id = Some ''t1'', project_name = Some ''tenancy one'',
                            project_enabled = Some True\<rparr>])\<rparr>),
      from_config = (\<lambda>config. Inl scoping_failure)\<rparr>"

definition example_provider :: provider where
  "example_provider =
     \<lparr>provider_auth_url = ''https://keystone/v3'',
      provider_domain = ''Default'',
      provider_interface = ''public'',
      provider_secondary_network_id = None,
      provider_verify_ssl = True\<rparr>"

definition example_unscoped :: unscoped_session where
  "example_unscoped =
     \<lparr>unscoped_auth_url = ''https://keystone/v3'',
      unscoped_username = ''alice'',
      unscoped_token = ''token'',
      unscoped_interface = ''public'',
      unscoped_secondary_network_id = None,
      unscoped_verify_ssl = True\<rparr>"

section \<open>Properties\<close>

subsection \<open>Running operations\<close>

lemma and_then_returns:
  "and_then m k w = (Inr b, w') \<Longrightarrow> \<exists>v w1. m w = (Inr v, w1) \<and> k v w1 = (Inr b, w')"
  by (auto simp: and_then_def split: prod.splits sum.splits)

lemma converted_returns: "converted f w = (Inr v, w') \<longleftrightarrow> f w = (Inr v, w')"
  by (auto simp: converted_def convert_sdk_exceptions_def split: prod.splits sum.splits)

lemma invoke_returns:
  "invoke c operation w = (r, w') \<longleftrightarrow>
     (\<exists>s'. operation (backend w) = (r, s') \<and> w' = w\<lparr>backend := s', calls := calls w @ [c]\<rparr>)"
  by (auto simp: invoke_def split: prod.splits)

lemma for_each_lift_returns:
  "for_each (\<lambda>x. lift (f x)) xs w = (Inr ys, w') \<Longrightarrow> w' = w \<and> map Inr ys = map f xs"
  by (induction xs arbitrary: ys) (auto simp: lift_def split: prod.splits sum.splits)

lemma and_then_invoke_returns:
  "and_then (invoke c operation) k w = (Inr b, w') \<Longrightarrow>
   \<exists>v s'. operation (backend w) = (Inr v, s')
     \<and> k v (w\<lparr>backend := s', calls := calls w @ [c]\<rparr>) = (Inr b, w')"
  by (auto simp: invoke_returns dest!: and_then_returns)

lemma and_then_lift_returns:
  "and_then (lift r) k w = (Inr b, w') \<Longrightarrow> \<exists>v. r = Inr v \<and> k v w = (Inr b, w')"
  by (auto simp: lift_def dest!: and_then_returns)

lemmas eval_strings = lower_def lower_char_def ascii_uppercase_def ascii_lowercase_def

subsection \<open>Error translation\<close>

text \<open>
  Rewriting the resource names neither makes nor breaks the phrase: no replaced or
  inserted word holds the letter q, and none begins with a character of the phrase.
\<close>

lemma starts_with_iff: "starts_with p s \<longleftrightarrow> (\<exists>r. s = p @ r)"
  by (induction p s rule: starts_with.induct) auto

lemma py_in_skip:
  "p0 \<notin> set xs \<Longrightarrow> py_in (p0 # ps) (xs @ ys) = py_in (p0 # ps) ys"
  by (induction xs) auto

lemma replace_Nil: "old \<noteq> [] \<Longrightarrow> replace old new [] = []"
  by (simp add: replace.simps)

lemma replace_match:
  "old \<noteq> [] \<Longrightarrow> replace old new (old @ r) = new @ replace old new r"
  by (subst replace.simps) (simp add: starts_with_iff)

lemma replace_step:
  "old \<noteq> [] \<Longrightarrow> \<not> starts_with old (c # cs) \<Longrightarrow>
   replace old new (c # cs) = c # replace old new cs"
  by (subst replace.simps) simp

lemma starts_with_replace:
  assumes "old \<noteq> []" and "new \<noteq> []"
    and "hd (map f old) \<notin> set q" and "hd (map f new) \<notin> set q"
  shows "starts_with q (map f (replace old new t)) = starts_with q (map f t)"
  using assms(3,4)
proof (induction q arbitrary: t)
  case Nil
  then show ?case by simp
next
  case (Cons a q)
  show ?case
  proof (cases t)
    case Nil
    with assms(1) show ?thesis by (simp add: replace_Nil)
  next
    case (Cons c cs)
    show ?thesis
    proof (cases "starts_with old t")
      case True
      then obtain r where t: "t = old @ r" by (auto simp: starts_with_iff)
      with assms(1) have replaced: "replace old new t = new @ replace old new r"
        by (simp add: replace_match)
      from assms(1,2) obtain o1 os n1 ns where "old = o1 # os" "new = n1 # ns"
        by (auto simp: neq_Nil_conv)
      with Cons.prems have "a \<noteq> f o1" "a \<noteq> f n1"
        by auto
      with \<open>old = o1 # os\<close> \<open>new = n1 # ns\<close> show ?thesis
        unfolding replaced unfolding t by simp
    next
      case False
      with Cons assms(1) have "replace old new t = c # replace old new cs"
        by (simp add: replace_step)
      moreover from Cons.prems have "hd (map f old) \<notin> set q" "hd (map f new) \<notin> set q"
        by simp_all
      ultimately show ?thesis
        using Cons.IH [of cs] \<open>t = c # cs\<close> by simp
    qed
  qed
qed

lemma py_in_replace:
  assumes "old \<noteq> []" and "new \<noteq> []"
    and "p0 \<notin> set (map f old)" and "p0 \<notin> set (map f new)"
    and "hd (map f old) \<notin> set ps" and "hd (map f new) \<notin> set ps"
  shows "py_in (p0 # ps) (map f (replace old new s)) = py_in (p0 # ps) (map f s)"
proof (induction s rule: length_induct)
  case (1 s)
  show ?case
  proof (cases s)
    case Nil
    with assms(1) show ?thesis by (simp add: replace_Nil)
  next
    case (Cons c cs)
    show ?thesis
    proof (cases "starts_with old s")
      case True
      then obtain r where s: "s = old @ r" by (auto simp: starts_with_iff)
      with assms(1) have "length r < length s" by simp
      with 1 have "py_in (p0 # ps) (map f (replace old new r)) = py_in (p0 # ps) (map f r)"
        by blast
      moreover from s assms(1) have "replace old new s = new @ replace old new r"
        by (simp add: replace_match)
      ultimately show ?thesis
        using assms(3,4) unfolding s by (simp add: py_in_skip)
    next
      case False
      with Cons assms(1) have step: "replace old new s = c # replace old new cs"
        by (simp add: replace_step)
      from Cons 1 have "py_in (p0 # ps) (map f (replace old new cs)) = py_in (p0 # ps) (map f cs)"
        by simp
      with step Cons starts_with_replace [OF assms(1,2,5,6), of cs] show ?thesis
        by simp
    qed
  qed
qed

lemma lower_char_letters:
  "lower_char CHR ''i'' = CHR ''i''"
  "lower_char CHR ''n'' = CHR ''n''"
  "lower_char CHR ''s'' = CHR ''s''"
  "lower_char CHR ''t'' = CHR ''t''"
  "lower_char CHR ''a'' = CHR ''a''"
  "lower_char CHR ''c'' = CHR ''c''"
  "lower_char CHR ''e'' = CHR ''e''"
  "lower_char CHR ''I'' = CHR ''i''"
  "lower_char CHR ''m'' = CHR ''m''"
  "lower_char CHR ''h'' = CHR ''h''"
  "lower_char CHR ''M'' = CHR ''m''"
  "lower_char CHR ''f'' = CHR ''f''"
  "lower_char CHR ''l'' = CHR ''l''"
  "lower_char CHR ''v'' = CHR ''v''"
  "lower_char CHR ''o'' = CHR ''o''"
  "lower_char CHR ''r'' = CHR ''r''"
  "lower_char CHR ''R'' = CHR ''r''"
  "lower_char CHR ''F'' = CHR ''f''"
  "lower_char CHR ''z'' = CHR ''z''"
  "lower_char CHR ''S'' = CHR ''s''"
  by (simp_all add: lower_char_def ascii_uppercase_def ascii_lowercase_def)

lemma quota_phrase_kept_by_replace:
  assumes "(old, new) \<in> set REPLACEMENTS"
  shows "py_in ''quota exceeded'' (lower (replace old new s)) =
         py_in ''quota exceeded'' (lower s)"
  unfolding lower_def
  using assms
  by (intro py_in_replace) (auto simp: REPLACEMENTS_def lower_char_letters)

lemma quota_phrase_kept:
  "py_in ''quota exceeded'' (lower (replace_resource_names details)) =
   py_in ''quota exceeded'' (lower details)"
  by (simp add: replace_resource_names_def REPLACEMENTS_def quota_phrase_kept_by_replace)

text \<open>
  C1. A backend HTTP failure passed through the error translator, whether the SDK's
  \<open>HttpException\<close> (its message is \<open>details\<close>) or keystoneauth's \<open>HttpError\<close>:
  with status 409 it becomes \<open>QuotaExceededError\<close> when the message, in lower case,
  contains "quota exceeded", and \<open>InvalidOperationError\<close> when it does not; with
  status 403 it becomes \<open>QuotaExceededError\<close> when the message contains the phrase
  and \<open>PermissionDeniedError\<close> when it does not.
\<close>

theorem quota_sniffing_409_403:
  "convert_sdk_exceptions (Inl (HttpException 409 details) :: exn + 'a) =
     Inl (if py_in ''quota exceeded'' (lower details)
          then Errors QuotaExceededError quota_message
          else Errors InvalidOperationError (replace_resource_names details))
   \<and> convert_sdk_exceptions (Inl (KeystoneHttpError 409 message) :: exn + 'a) =
     Inl (if py_in ''quota exceeded'' (lower message)
          then Errors QuotaExceededError quota_message
          else Errors InvalidOperationError message)
   \<and> convert_sdk_exceptions (Inl (HttpException 403 details) :: exn + 'a) =
     Inl (if py_in ''quota exceeded'' (lower details)
          then Errors QuotaExceededError quota_message
          else Errors PermissionDeniedError ''Permission denied'')
   \<and> convert_sdk_exceptions (Inl (KeystoneHttpError 403 message) :: exn + 'a) =
     Inl (if py_in ''quota exceeded'' (lower message)
          then Errors QuotaExceededError quota_message
          else Errors PermissionDeniedError ''Permission denied'')"
  by (simp add: convert_sdk_exceptions_def by_status_code_def quota_phrase_kept)

theorem quota_sniffing_409_403_witness:
  "convert_sdk_exceptions
      (Inl (HttpException 409 ''Quota Exceeded for instances'') :: exn + unit) =
     Inl (Errors QuotaExceededError quota_message)
   \<and> convert_sdk_exceptions (Inl (KeystoneHttpError 409 ''Conflict'') :: exn + unit) =
     Inl (Errors InvalidOperationError ''Conflict'')
   \<and> convert_sdk_exceptions
      (Inl (HttpException 403 ''Quota Exceeded for instances'') :: exn + unit) =
     Inl (Errors QuotaExceededError quota_message)
   \<and> convert_sdk_exceptions (Inl (KeystoneHttpError 403 ''Conflict'') :: exn + unit) =
     Inl (Errors PermissionDeniedError ''Permission denied'')"
  using quota_sniffing_409_403
    [where 'a = unit, of "''Quota Exceeded for instances''" "''Conflict''"]
  by (simp add: replace_resource_names_def REPLACEMENTS_def replace.simps lower_def
      lower_char_def ascii_uppercase_def ascii_lowercase_def)

subsection \<open>Scoping a session\<close>

text \<open>
  C2, as the code has it. When \<open>connection.from_config\<close> fails for the tenancy the
  call was made for: a failure with status 401 or 403 that is an SDK \<open>HttpException\<close>
  leaves \<open>scoped_session\<close> as \<open>ObjectNotFoundError\<close>, never as \<open>AuthenticationError\<close>
  or \<open>PermissionDeniedError\<close>; a failure with another status is raised again by the
  handler and leaves the call as the error translator of the decorator translates it,
  so unchanged only where the translator changes nothing.
\<close>

theorem scoping_failures:
  assumes "tenancy_or_find platform self given = Inr tenancy"
    and "from_config platform (get_one_cloud self tenancy) = Inl e"
  shows "(is_sdk_http_exception e \<and> sdk_status_code e \<in> {401, 403} \<longrightarrow>
            scoped_session platform self given =
              Inl (Errors ObjectNotFoundError
                     (''Could not find tenancy with ID '' @ tenancy_id tenancy)))
       \<and> ((\<exists>c. failure_status e = Some c \<and> c \<notin> {401, 403}) \<longrightarrow>
            scoped_session platform self given = Inl (translate e))"
  using assms
  by (auto simp: scoped_session_def scoped_session_body_def convert_sdk_exceptions_def
      failure_status_def is_sdk_http_exception_def sdk_status_code_def split: exn.splits)

theorem scoping_failures_witness:
  "scoped_session (keystone 201 [] (HttpException 403 ''Forbidden'')) example_unscoped
      (Tenancy_ident ''t1'') =
     Inl (Errors ObjectNotFoundError ''Could not find tenancy with ID t1'')
   \<and> scoped_session (keystone 201 [] (HttpException 401 ''Unauthorized'')) example_unscoped
      (Tenancy_object \<lparr>tenancy_id = ''t1'', tenancy_name = ''tenancy one''\<rparr>) =
     Inl (Errors ObjectNotFoundError ''Could not find tenancy with ID t1'')
   \<and> scoped_session (keystone 201 [] (HttpException 503 ''Service Unavailable''))
      example_unscoped (Tenancy_ident ''t1'') =
     Inl (Errors CommunicationError ''Error communicating with OpenStack API'')
   \<and> scoped_session (keystone 201 [] (KeystoneHttpError 409 ''Conflict'')) example_unscoped
      (Tenancy_object \<lparr>tenancy_id = ''t1'', tenancy_name = ''tenancy one''\<rparr>) =
     Inl (Errors InvalidOperationError ''Conflict'')"
proof -
  let ?t = "\<lparr>tenancy_id = ''t1'', tenancy_name = ''tenancy one''\<rparr>"
  have found: "tenancy_or_find (keystone 201 [] e) example_unscoped (Tenancy_ident ''t1'')
      = Inr ?t" for e
    by (simp add: tenancy_or_find_def tenancies_def keystone_def raise_for_status_def)
  have given: "tenancy_or_find (keystone 201 [] e) example_unscoped (Tenancy_object ?t)
      = Inr ?t" for e
    by (simp add: tenancy_or_find_def)
  have fails: "from_config (keystone 201 [] e) (get_one_cloud example_unscoped ?t) = Inl e"
    for e
    by (simp add: keystone_def)
  show ?thesis
    using scoping_failures [OF found fails, of "HttpException 403 ''Forbidden''"]
      scoping_failures [OF given fails, of "HttpException 401 ''Unauthorized''"]
      scoping_failures [OF found fails, of "HttpException 503 ''Service Unavailable''"]
      scoping_failures [OF given fails, of "KeystoneHttpError 409 ''Conflict''"]
    by (simp add: is_sdk_http_exception_def sdk_status_code_def failure_status_def
        by_status_code_def eval_strings)
qed

theorem scoping_failure_translated_counterexample:
  "scoped_session (keystone 201 [] (HttpException 500 ''Internal Server Error''))
      example_unscoped (Tenancy_object \<lparr>tenancy_id = ''t1'', tenancy_name = ''tenancy one''\<rparr>) =
     Inl (Errors CommunicationError ''Error communicating with OpenStack API'')
   \<and> scoped_session (keystone 201 [] (HttpException 500 ''Internal Server Error''))
      example_unscoped (Tenancy_object \<lparr>tenancy_id = ''t1'', tenancy_name = ''tenancy one''\<rparr>) \<noteq>
     Inl (HttpException 500 ''Internal Server Error'')"
  by (simp add: scoped_session_def scoped_session_body_def tenancy_or_find_def keystone_def
      convert_sdk_exceptions_def is_sdk_http_exception_def sdk_status_code_def
      by_status_code_def)

text \<open>
  The handler names the SDK's \<open>HttpException\<close>. A keystoneauth \<open>HttpError\<close> of
  \<open>connection.from_config\<close> is none: it passes the handler whatever its status, and
  the decorator translates it by that status. The comment of the handler wants an
  auth error at scoping turned into not found, so the property above does not speak
  of a keystoneauth failure with status 401 or 403.
\<close>

lemma scoping_keystone_failure:
  assumes "tenancy_or_find platform self given = Inr tenancy"
    and "from_config platform (get_one_cloud self tenancy) = Inl (KeystoneHttpError c m)"
  shows "scoped_session platform self given = Inl (by_status_code c m)"
  using assms
  by (simp add: scoped_session_def scoped_session_body_def convert_sdk_exceptions_def
      is_sdk_http_exception_def)

subsection \<open>Authentication\<close>

text \<open>
  C5, as the code has it. When the identity service answers the token request: a
  response with status 401 makes \<open>authenticate\<close> raise \<open>AuthenticationError\<close>; a
  response with any other status from 400 to 599, 404 among them, makes it raise
  \<open>CommunicationError\<close>; a response outside that range that lacks the header
  \<open>X-Subject-Token\<close> makes it raise \<open>CommunicationError\<close>; otherwise it returns an
  unscoped session that holds the token of that header.
\<close>

theorem authenticate_outcomes:
  assumes "requests_post platform (provider_auth_url self @ ''/auth/tokens'')
             \<lparr>identity_user_name = username,
              identity_domain_name = provider_domain self,
              identity_password = password\<rparr>
             (provider_verify_ssl self) = Inr res"
  shows "(response_status_code res = 401 \<longrightarrow>
            authenticate platform self username password =
              Inl (Errors AuthenticationError ''Invalid username or password''))
       \<and> (400 \<le> response_status_code res \<and> response_status_code res < 600
            \<and> response_status_code res \<noteq> 401 \<longrightarrow>
            authenticate platform self username password =
              Inl (Errors CommunicationError ''Unexpected response from OpenStack''))
       \<and> (\<not> (400 \<le> response_status_code res \<and> response_status_code res < 600)
            \<and> header (response_headers res) ''X-Subject-Token'' = Inl KeyError \<longrightarrow>
            authenticate platform self username password =
              Inl (Errors CommunicationError ''Unable to extract token from response''))
       \<and> (\<forall>token.
            \<not> (400 \<le> response_status_code res \<and> response_status_code res < 600)
            \<and> header (response_headers res) ''X-Subject-Token'' = Inr token \<longrightarrow>
            authenticate platform self username password =
              Inr \<lparr>unscoped_auth_url = provider_auth_url self,
                   unscoped_username = username,
                   unscoped_token = token,
                   unscoped_interface = provider_interface self,
                   unscoped_secondary_network_id = provider_secondary_network_id self,
                   unscoped_verify_ssl = provider_verify_ssl self\<rparr>)"
  using assms by (simp add: authenticate_def raise_for_status_def)

theorem authenticate_outcomes_witness:
  "authenticate (keystone 401 [] SDKException) example_provider ''alice'' ''secret'' =
     Inl (Errors AuthenticationError ''Invalid username or password'')
   \<and> authenticate (keystone 201 [] SDKException) example_provider ''alice'' ''secret'' =
     Inl (Errors CommunicationError ''Unable to extract token from response'')
   \<and> authenticate (keystone 201 [(''x-subject-token'', ''gAAAAAB'')] SDKException)
       example_provider ''alice'' ''secret'' =
     Inr \<lparr>unscoped_auth_url = ''https://keystone/v3'',
          unscoped_username = ''alice'',
          unscoped_token = ''gAAAAAB'',
          unscoped_interface = ''public'',
          unscoped_secondary_network_id = None,
          unscoped_verify_ssl = True\<rparr>"
proof -
  have answered:
    "requests_post (keystone c hs SDKException) (provider_auth_url example_provider @ ''/auth/tokens'')
       \<lparr>identity_user_name = ''alice'',
        identity_domain_name = provider_domain example_provider,
        identity_password = ''secret''\<rparr>
       (provider_verify_ssl example_provider) =
     Inr \<lparr>response_status_code = c, response_headers = hs, response_json = Inr ()\<rparr>"
    for c hs
    by (simp add: keystone_def)
  show ?thesis
    using authenticate_outcomes [OF answered, of 401 "[]"]
      authenticate_outcomes [OF answered, of 201 "[]"]
      authenticate_outcomes [OF answered, of 201 "[(''x-subject-token'', ''gAAAAAB'')]"]
    by (simp add: header_def example_provider_def eval_strings)
qed

theorem authenticate_not_found_counterexample:
  "authenticate (keystone 404 [] SDKException) example_provider ''alice'' ''secret'' =
     Inl (Errors CommunicationError ''Unexpected response from OpenStack'')"
  by (simp add: authenticate_def raise_for_status_def keystone_def)

text \<open>
  A failure of the transport is raised by \<open>requests.post\<close>, before the \<open>try\<close>
  statement whose handler names \<open>ConnectionError\<close>, and leaves \<open>authenticate\<close> as
  it was raised.
\<close>

lemma authenticate_transport_failure:
  assumes "requests_post platform (provider_auth_url self @ ''/auth/tokens'')
             \<lparr>identity_user_name = username,
              identity_domain_name = provider_domain self,
              identity_password = password\<rparr>
             (provider_verify_ssl self) = Inl e"
  shows "authenticate platform self username password = Inl e"
  using assms by (simp add: authenticate_def)

subsection \<open>Volumes\<close>

lemma find_volume_source:
  assumes "find_volume self ident w = (Inr vol, w')"
  shows "\<exists>sv s'. block_store_get_volume (session_connection self) ident (backend w) = (Inr sv, s')
           \<and> from_sdk_volume sv = Inr vol"
  using assms
  by (auto simp: find_volume_def converted_returns lift_def invoke_returns
      dest!: and_then_returns)

lemma volumes_source:
  assumes "volumes self w = (Inr vols, w')"
  shows "\<exists>svs s'. block_store_volumes (session_connection self) (backend w) = (Inr svs, s')
           \<and> map Inr vols = map from_sdk_volume svs"
  using assms
  by (auto simp: volumes_def converted_returns invoke_returns
      dest!: and_then_returns for_each_lift_returns)

lemma from_sdk_volume_status:
  "from_sdk_volume sv = Inr vol \<Longrightarrow> volume_status vol = mapped_status (sdk_volume_status sv)"
  by (auto simp: from_sdk_volume_def Let_def split: sum.splits)

lemma built_statuses:
  "map Inr vols = map from_sdk_volume svs \<Longrightarrow>
   map volume_status vols = map (\<lambda>sv. mapped_status (sdk_volume_status sv)) svs"
  by (induction svs arbitrary: vols)
    (auto simp: map_eq_Cons_conv dest: from_sdk_volume_status [OF sym])

lemmas eval_find_volume =
  find_volume_def converted_def convert_sdk_exceptions_def and_then_def invoke_def
  session_on_def unavailable_def fresh_def lift_def from_sdk_volume_def
  mapped_status_def VOLUME_STATUSES_def attachment_item_def or_else_def eval_strings

lemma find_managing_volume:
  "find_volume (session_on volume_store) ''v'' (fresh ()) =
     (Inr \<lparr>volume_id = ''0123456789abcdef'', volume_name = ''0123456789abc'',
           volume_status = OTHER, volume_size = 10, volume_machine_id = None,
           volume_device = None\<rparr>,
      \<lparr>backend = (), calls = [Block_store_get_volume ''v''], image_cache = [],
        tenant_network_cache = None\<rparr>)"
  by (simp add: eval_find_volume volume_store_def managing_volume_def)

lemma list_managing_volume:
  "volumes (session_on volume_store) (fresh ()) =
     (Inr [\<lparr>volume_id = ''0123456789abcdef'', volume_name = ''0123456789abc'',
           volume_status = OTHER, volume_size = 10, volume_machine_id = None,
           volume_device = None\<rparr>],
      \<lparr>backend = (), calls = [Block_store_volumes], image_cache = [],
        tenant_network_cache = None\<rparr>)"
  by (simp add: volumes_def eval_find_volume volume_store_def managing_volume_def)

lemma find_attached_volume:
  "find_volume (session_on attached_store) ''vol1'' (fresh ()) =
     (Inr \<lparr>volume_id = ''vol1'', volume_name = ''data'',
           volume_status = IN_USE, volume_size = 20, volume_machine_id = Some ''m1'',
           volume_device = Some ''/dev/vdb''\<rparr>,
      \<lparr>backend = (), calls = [Block_store_get_volume ''vol1''], image_cache = [],
        tenant_network_cache = None\<rparr>)"
  by (simp add: eval_find_volume attached_store_def attached_volume_def)

lemma mapped_status_error:
  "lower s \<in> {''error'', ''error_deleting'', ''error_backing-up'', ''error_restoring'',
               ''error_extending''}
    \<Longrightarrow> mapped_status s = ERROR"
  by (auto simp: mapped_status_def VOLUME_STATUSES_def)

lemma mapped_status_other:
  "lower s \<notin> fst ` set VOLUME_STATUSES \<Longrightarrow> mapped_status s = OTHER"
  using map_of_eq_None_iff [of VOLUME_STATUSES "lower s"] by (simp add: mapped_status_def)

text \<open>
  C4, as the code has it. The status of every volume that \<open>find_volume\<close> or
  \<open>volumes\<close> produces is the backend's status string, in lower case, looked up in
  the table, within the closed set of eight phases: the strings \<open>error\<close>,
  \<open>error_deleting\<close>, \<open>error_backing-up\<close>, \<open>error_restoring\<close> and
  \<open>error_extending\<close> map to the single error phase, and every string outside the
  table, other strings that begin with \<open>error_\<close> among them, maps to the other
  phase; the lookup raises nothing.
\<close>

theorem volume_status_table:
  "(find_volume self ident w = (Inr vol, w') \<longrightarrow>
      (\<exists>sv s'. block_store_get_volume (session_connection self) ident (backend w) = (Inr sv, s')
         \<and> volume_status vol = mapped_status (sdk_volume_status sv)))
   \<and> (volumes self w = (Inr vols, w'') \<longrightarrow>
      (\<exists>svs s'. block_store_volumes (session_connection self) (backend w) = (Inr svs, s')
         \<and> map volume_status vols = map (\<lambda>sv. mapped_status (sdk_volume_status sv)) svs))
   \<and> (lower status \<in> {''error'', ''error_deleting'', ''error_backing-up'',
                         ''error_restoring'', ''error_extending''} \<longrightarrow>
        mapped_status status = ERROR)
   \<and> (lower status \<notin> fst ` set VOLUME_STATUSES \<longrightarrow> mapped_status status = OTHER)
   \<and> mapped_status status \<in>
        {CREATING, AVAILABLE, ATTACHING, DETACHING, IN_USE, DELETING, ERROR, OTHER}"
proof (intro conjI impI)
  assume "find_volume self ident w = (Inr vol, w')"
  from find_volume_source [OF this] show
    "\<exists>sv s'. block_store_get_volume (session_connection self) ident (backend w) = (Inr sv, s')
       \<and> volume_status vol = mapped_status (sdk_volume_status sv)"
    by (blast dest: from_sdk_volume_status)
next
  assume "volumes self w = (Inr vols, w'')"
  from volumes_source [OF this] obtain svs s' where
    listed: "block_store_volumes (session_connection self) (backend w) = (Inr svs, s')"
    and built: "map Inr vols = map from_sdk_volume svs"
    by blast
  from built have
    "map volume_status vols = map (\<lambda>sv. mapped_status (sdk_volume_status sv)) svs"
    by (rule built_statuses)
  with listed show
    "\<exists>svs s'. block_store_volumes (session_connection self) (backend w) = (Inr svs, s')
       \<and> map volume_status vols = map (\<lambda>sv. mapped_status (sdk_volume_status sv)) svs"
    by blast
next
  assume "lower status \<in> {''error'', ''error_deleting'', ''error_backing-up'',
                          ''error_restoring'', ''error_extending''}"
  then show "mapped_status status = ERROR" by (rule mapped_status_error)
next
  assume "lower status \<notin> fst ` set VOLUME_STATUSES"
  then show "mapped_status status = OTHER" by (rule mapped_status_other)
next
  show "mapped_status status \<in>
        {CREATING, AVAILABLE, ATTACHING, DETACHING, IN_USE, DELETING, ERROR, OTHER}"
    by (cases "mapped_status status") simp_all
qed

theorem volume_status_table_witness:
  "(\<exists>sv s'. block_store_get_volume (session_connection (session_on volume_store)) ''v''
              (backend (fresh ())) = (Inr sv, s')
       \<and> OTHER = mapped_status (sdk_volume_status sv))
   \<and> (\<exists>svs s'. block_store_volumes (session_connection (session_on volume_store))
              (backend (fresh ())) = (Inr svs, s')
       \<and> [OTHER] = map (\<lambda>sv. mapped_status (sdk_volume_status sv)) svs)
   \<and> mapped_status ''ERROR_DELETING'' = ERROR
   \<and> mapped_status ''error_managing'' = OTHER"
proof (intro conjI)
  show "\<exists>sv s'. block_store_get_volume (session_connection (session_on volume_store)) ''v''
              (backend (fresh ())) = (Inr sv, s')
       \<and> OTHER = mapped_status (sdk_volume_status sv)"
    using volume_status_table [THEN conjunct1, rule_format, OF find_managing_volume]
    by simp
  show "\<exists>svs s'. block_store_volumes (session_connection (session_on volume_store))
              (backend (fresh ())) = (Inr svs, s')
       \<and> [OTHER] = map (\<lambda>sv. mapped_status (sdk_volume_status sv)) svs"
    using volume_status_table
      [THEN conjunct2, THEN conjunct1, rule_format, OF list_managing_volume]
    by simp
  have "lower ''ERROR_DELETING'' \<in>
      {''error'', ''error_deleting'', ''error_backing-up'', ''error_restoring'',
       ''error_extending''}"
    by (simp add: eval_strings)
  then show "mapped_status ''ERROR_DELETING'' = ERROR"
    by (rule volume_status_table
      [THEN conjunct2, THEN conjunct2, THEN conjunct1, rule_format])
  have "lower ''error_managing'' \<notin> fst ` set VOLUME_STATUSES"
    by (simp add: VOLUME_STATUSES_def eval_strings)
  then show "mapped_status ''error_managing'' = OTHER"
    by (rule volume_status_table
      [THEN conjunct2, THEN conjunct2, THEN conjunct2, THEN conjunct1, rule_format])
qed

theorem error_prefix_counterexample:
  "starts_with ''error_'' (sdk_volume_status managing_volume)
   \<and> map_sum id volume_status (fst (find_volume (session_on volume_store) ''v'' (fresh ()))) =
       Inr OTHER"
  by (simp add: find_managing_volume) (simp add: managing_volume_def)

text \<open>
  C6, as the code has it. Once the volume is at hand (the object that was given, or
  the one \<open>find_volume\<close> fetched for the id that was given): when it is attached to
  the requested machine, whatever its status, \<open>attach_volume\<close> returns it and
  calls the backend no further; when it is attached elsewhere or nowhere and its
  status is not \<open>AVAILABLE\<close>, \<open>attach_volume\<close> raises \<open>InvalidOperationError\<close> and
  issues no attachment. A volume object costs no backend call at all, a volume id the
  one call that fetches the volume.
\<close>

theorem attach_volume_guards:
  assumes "volume_or_find self volume_given w = (Inr v, w1)"
  shows "(volume_machine_id v = Some (machine_ident machine_given) \<longrightarrow>
            attach_volume self volume_given machine_given w = (Inr v, w1))
       \<and> (volume_machine_id v \<noteq> Some (machine_ident machine_given)
            \<and> volume_status v \<noteq> AVAILABLE \<longrightarrow>
            attach_volume self volume_given machine_given w =
              (Inl (Errors InvalidOperationError
                      ''Volume must be AVAILABLE before attaching.''), w1))
       \<and> (\<forall>given. volume_given = Volume_object given \<longrightarrow> v = given \<and> w1 = w)
       \<and> (\<forall>ident. volume_given = Volume_ident ident \<longrightarrow>
            w1 = w\<lparr>backend :=
                      snd (block_store_get_volume (session_connection self) ident (backend w)),
                    calls := calls w @ [Block_store_get_volume ident]\<rparr>)"
proof (intro conjI impI allI)
  assume "volume_machine_id v = Some (machine_ident machine_given)"
  with assms show "attach_volume self volume_given machine_given w = (Inr v, w1)"
    by (simp add: attach_volume_def converted_def and_then_def return_def
        convert_sdk_exceptions_def)
next
  assume "volume_machine_id v \<noteq> Some (machine_ident machine_given)
            \<and> volume_status v \<noteq> AVAILABLE"
  with assms show "attach_volume self volume_given machine_given w =
      (Inl (Errors InvalidOperationError ''Volume must be AVAILABLE before attaching.''), w1)"
    by (simp add: attach_volume_def converted_def and_then_def raise_def
        convert_sdk_exceptions_def)
next
  fix given assume "volume_given = Volume_object given"
  with assms show "v = given" and "w1 = w"
    by (simp_all add: volume_or_find_def return_def)
next
  fix ident assume "volume_given = Volume_ident ident"
  with assms have "find_volume self ident w = (Inr v, w1)"
    by (simp add: volume_or_find_def)
  then show "w1 = w\<lparr>backend :=
                      snd (block_store_get_volume (session_connection self) ident (backend w)),
                    calls := calls w @ [Block_store_get_volume ident]\<rparr>"
    by (auto simp: find_volume_def converted_returns lift_def invoke_returns
        dest!: and_then_returns)
qed

theorem attach_volume_guards_witness:
  "attach_volume (session_on attached_store)
      (Volume_object \<lparr>volume_id = ''vol1'', volume_name = ''data'',
           volume_status = IN_USE, volume_size = 20, volume_machine_id = Some ''m1'',
           volume_device = Some ''/dev/vdb''\<rparr>) (Machine_ident ''m1'') (fresh ()) =
     (Inr \<lparr>volume_id = ''vol1'', volume_name = ''data'',
           volume_status = IN_USE, volume_size = 20, volume_machine_id = Some ''m1'',
           volume_device = Some ''/dev/vdb''\<rparr>, fresh ())
   \<and> attach_volume (session_on attached_store) (Volume_ident ''vol1'') (Machine_ident ''m2'')
      (fresh ()) =
     (Inl (Errors InvalidOperationError ''Volume must be AVAILABLE before attaching.''),
      \<lparr>backend = (), calls = [Block_store_get_volume ''vol1''], image_cache = [],
        tenant_network_cache = None\<rparr>)"
proof -
  let ?v = "\<lparr>volume_id = ''vol1'', volume_name = ''data'',
           volume_status = IN_USE, volume_size = 20, volume_machine_id = Some ''m1'',
           volume_device = Some ''/dev/vdb''\<rparr>"
  have given: "volume_or_find (session_on attached_store) (Volume_object ?v) (fresh ()) =
      (Inr ?v, fresh ())"
    by (simp add: volume_or_find_def return_def)
  have found: "volume_or_find (session_on attached_store) (Volume_ident ''vol1'') (fresh ()) =
      (Inr ?v, \<lparr>backend = (), calls = [Block_store_get_volume ''vol1''], image_cache = [],
        tenant_network_cache = None\<rparr>)"
    by (simp add: volume_or_find_def find_attached_volume)
  show ?thesis
    using attach_volume_guards [OF given, of "Machine_ident ''m1''"]
      attach_volume_guards [OF found, of "Machine_ident ''m2''"]
    by (simp add: machine_ident_def)
qed

theorem attach_volume_lookup_counterexample:
  "attach_volume (session_on attached_store) (Volume_ident ''vol1'') (Machine_ident ''m1'')
      (fresh ()) =
     (Inr \<lparr>volume_id = ''vol1'', volume_name = ''data'',
           volume_status = IN_USE, volume_size = 20, volume_machine_id = Some ''m1'',
           volume_device = Some ''/dev/vdb''\<rparr>,
      \<lparr>backend = (), calls = [Block_store_get_volume ''vol1''], image_cache = [],
        tenant_network_cache = None\<rparr>)
   \<and> calls (fresh ()) = []"
  by (simp add: attach_volume_def volume_or_find_def find_attached_volume machine_ident_def
      converted_def and_then_def return_def convert_sdk_exceptions_def)
    (simp add: fresh_def)

subsection \<open>Quotas\<close>

lemma quota_backend_run: "quotas (session_on quota_backend) (fresh ()) =
     (Inr [\<lparr>quota_resource = ''cpus'', quota_units = None, quota_allocated = JNum 20,
            quota_used = JNum 4\<rparr>,
           \<lparr>quota_resource = ''ram'', quota_units = Some ''MB'', quota_allocated = JNum 51200,
            quota_used = JNum 8192\<rparr>,
           \<lparr>quota_resource = ''machines'', quota_units = None, quota_allocated = JNum 10,
            quota_used = JNum 2\<rparr>,
           \<lparr>quota_resource = ''external_ips'', quota_units = None, quota_allocated = JNum 5,
            quota_used = JNum 2\<rparr>,
           \<lparr>quota_resource = ''storage'', quota_units = Some ''GB'',
            quota_allocated = JNum 1000, quota_used = JNum 30\<rparr>,
           \<lparr>quota_resource = ''volumes'', quota_units = None, quota_allocated = JNum 10,
            quota_used = JNum 3\<rparr>],
      \<lparr>backend = (),
        calls = [Compute_get_limits, Session_get_endpoint ''network'' ''public'',
                 Session_get ''https://network/v2.0/quotas/t1'', Network_ips All_ips,
                 Session_get_endpoint ''volume'' ''public'',
                 Session_get ''https://volume/limits''],
        image_cache = [], tenant_network_cache = None\<rparr>)"
    by (simp add: quotas_def converted_def convert_sdk_exceptions_def and_then_def invoke_def
        lift_def return_def json_getitem_def session_on_def quota_backend_def unavailable_def
        fresh_def two_floating_ips_def)

text \<open>
  C8. A successful \<open>quotas()\<close> returns six entries, in the order cpus, ram (MB),
  machines, external_ips, storage (GB), volumes, and the usage of external_ips is the
  number of floating IPs that \<open>network.ips()\<close> listed when it was called, after the
  compute limits and the network quota were fetched.
\<close>

theorem quotas_six_entries:
  assumes "quotas self w = (Inr qs, w')"
  shows "map quota_resource qs =
           [''cpus'', ''ram'', ''machines'', ''external_ips'', ''storage'', ''volumes'']
       \<and> map quota_units qs = [None, Some ''MB'', None, None, Some ''GB'', None]
       \<and> (\<exists>limits s1 network_ep s2 network_quotas s3 ips s4.
            compute_get_limits (session_connection self) (backend w) = (Inr limits, s1)
          \<and> session_get_endpoint (session_connection self) ''network'' (session_interface self) s1
              = (Inr network_ep, s2)
          \<and> session_get (session_connection self)
               (network_ep @ ''/v2.0/quotas/'' @ session_tenancy_id self) s2
              = (Inr network_quotas, s3)
          \<and> network_ips (session_connection self) All_ips s3 = (Inr ips, s4)
          \<and> quota_used (qs ! 3) = JNum (int (length ips)))"
  using assms
  unfolding quotas_def converted_returns
  apply -
  apply (drule and_then_invoke_returns, elim exE conjE)+
  apply (drule and_then_lift_returns, elim exE conjE)+
  apply (drule and_then_invoke_returns, elim exE conjE)+
  apply (drule and_then_lift_returns, elim exE conjE)+
  apply (clarsimp simp: return_def)
  done

theorem quotas_six_entries_witness:
  "\<exists>qs w'. quotas (session_on quota_backend) (fresh ()) = (Inr qs, w')
     \<and> map quota_resource qs =
         [''cpus'', ''ram'', ''machines'', ''external_ips'', ''storage'', ''volumes'']
     \<and> map quota_units qs = [None, Some ''MB'', None, None, Some ''GB'', None]
     \<and> quota_used (qs ! 3) = JNum 2"
  using quotas_six_entries [OF quota_backend_run] quota_backend_run
  by simp

subsection \<open>Machines\<close>

lemma for_each_nth:
  "for_each f xs w = (Inr ys, w') \<Longrightarrow>
   length ys = length xs
   \<and> (\<forall>i<length xs. \<exists>wi wj.
         for_each f (take i xs) w = (Inr (take i ys), wi) \<and> f (xs ! i) wi = (Inr (ys ! i), wj))"
proof (induction xs arbitrary: w ys)
  case Nil
  then show ?case by simp
next
  case (Cons x xs)
  from Cons.prems obtain y w1 ys' where
    first: "f x w = (Inr y, w1)" and rest: "for_each f xs w1 = (Inr ys', w')"
    and ys: "ys = y # ys'"
    by (auto split: prod.splits sum.splits)
  from Cons.IH [OF rest] have len: "length ys' = length xs"
    and each: "\<forall>i<length xs. \<exists>wi wj.
         for_each f (take i xs) w1 = (Inr (take i ys'), wi) \<and> f (xs ! i) wi = (Inr (ys' ! i), wj)"
    by blast+
  have "\<exists>wi wj. for_each f (take i (x # xs)) w = (Inr (take i ys), wi)
          \<and> f ((x # xs) ! i) wi = (Inr (ys ! i), wj)" if "i < length (x # xs)" for i
  proof (cases i)
    case 0
    with first ys show ?thesis by simp
  next
    case (Suc j)
    with that have "j < length xs" by simp
    with each obtain wi wj where
      "for_each f (take j xs) w1 = (Inr (take j ys'), wi)" "f (xs ! j) wi = (Inr (ys' ! j), wj)"
      by blast
    with first ys Suc show ?thesis by simp
  qed
  with len ys show ?case by simp
qed

lemma for_each_raises:
  "x \<in> set xs \<Longrightarrow> (\<And>w. \<exists>e w1. f x w = (Inl e, w1)) \<Longrightarrow> \<exists>e w1. for_each f xs w = (Inl e, w1)"
proof (induction xs arbitrary: w)
  case Nil
  then show ?case by simp
next
  case (Cons a xs)
  show ?case
  proof (cases "f a w")
    case (Pair r w1)
    show ?thesis
    proof (cases r)
      case (Inl e)
      with Pair show ?thesis by simp
    next
      case (Inr y)
      have "x \<in> set xs"
        using Cons.prems(1) Cons.prems(2) [of w] Pair Inr by auto
      from Cons.IH [OF this Cons.prems(2)] obtain e w2 where "for_each f xs w1 = (Inl e, w2)"
        by blast
      with Pair Inr show ?thesis by simp
    qed
  qed
qed

lemma for_each_stops:
  "for_each f before w = (Inr ys, wi) \<Longrightarrow> f x wi = (Inl e, w2) \<Longrightarrow>
   for_each f (before @ x # rest) w = (Inl e, w2)"
  by (induction before arbitrary: w ys) (auto split: prod.splits sum.splits)

lemma build_machine_returns:
  "build_machine ext s flag status fault task net = Inr m \<Longrightarrow>
   machine_nat_allowed m = flag
   \<and> map_of POWER_STATES (server_power_state s) = Some (machine_power_state m)"
  by (auto simp: build_machine_def split: sum.splits option.splits)

lemma from_sdk_server_returns:
  assumes "from_sdk_server ext self s w = (Inr m, w')"
  shows "\<exists>w1. resolve_nat_allowed self s w = (Inr (machine_nat_allowed m), w1)
           \<and> map_of POWER_STATES (server_power_state s) = Some (machine_power_state m)"
  using assms
  by (auto simp: from_sdk_server_def Let_def lift_def
      dest!: and_then_returns build_machine_returns)

lemma resolve_nat_allowed_in_order:
  "resolve_nat_allowed self s w = (Inr flag, w1) \<Longrightarrow> resolved_in_order self s w flag"
  by (auto simp: resolve_nat_allowed_def resolved_in_order_def
      split: sum.splits option.splits prod.splits if_splits)

lemma find_machine_returns:
  assumes "find_machine ext self ident w = (Inr m, w')"
  shows "\<exists>s s1. compute_get_server (session_connection self) ident (backend w) = (Inr s, s1)
           \<and> from_sdk_server ext self s
                (w\<lparr>backend := s1, calls := calls w @ [Compute_get_server ident]\<rparr>) = (Inr m, w')"
  using assms unfolding find_machine_def converted_returns
  by (blast dest: and_then_invoke_returns)

lemma machines_returns:
  assumes "machines ext self w = (Inr ms, w')"
  shows "\<exists>ss s1. compute_list_server_detail (session_connection self) (backend w) = (Inr ss, s1)
           \<and> for_each (from_sdk_server ext self) ss
                (w\<lparr>backend := s1, calls := calls w @ [Compute_list_server_detail]\<rparr>) = (Inr ms, w')"
  using assms unfolding machines_def converted_returns
  by (blast dest: and_then_invoke_returns)

lemma power_state_vocabulary:
  "map_of POWER_STATES code = Some name \<Longrightarrow>
   name \<in> {''Unknown'', ''Running'', ''Paused'', ''Shut down'', ''Crashed'', ''Suspended''}"
  by (auto simp: POWER_STATES_def split: if_splits)

lemma from_sdk_server_unmapped:
  assumes "map_of POWER_STATES (server_power_state s) = None"
  shows "\<exists>e w1. from_sdk_server ext self s w = (Inl e, w1)"
proof (cases "from_sdk_server ext self s w")
  case (Pair r w1)
  show ?thesis
  proof (cases r)
    case (Inl e)
    with Pair show ?thesis by blast
  next
    case (Inr m)
    with Pair from_sdk_server_returns [of ext self s w m w1] assms show ?thesis by auto
  qed
qed

lemma from_sdk_server_key_error:
  assumes "map_of POWER_STATES (server_power_state s) = None"
    and "resolve_nat_allowed self s w = (Inr flag, w1)"
    and "tenant_network self w1 = (Inr net, w2)"
    and "getitem (server_image s) ''id'' = Inr i"
    and "getitem (server_flavor s) ''id'' = Inr f"
  shows "from_sdk_server ext self s w = (Inl KeyError, w2)"
  using assms
  by (simp add: from_sdk_server_def and_then_def lift_def build_machine_def Let_def)

lemma find_machine_raises:
  assumes "compute_get_server (session_connection self) ident (backend w) = (Inr s, s1)"
    and "from_sdk_server ext self s
           (w\<lparr>backend := s1, calls := calls w @ [Compute_get_server ident]\<rparr>) = (Inl e, w2)"
  shows "find_machine ext self ident w = (Inl (translate e), w2)"
  using assms
  by (simp add: find_machine_def converted_def and_then_def invoke_def
      convert_sdk_exceptions_def)

lemma machines_raises:
  assumes "compute_list_server_detail (session_connection self) (backend w) = (Inr ss, s1)"
    and "for_each (from_sdk_server ext self) ss
           (w\<lparr>backend := s1, calls := calls w @ [Compute_list_server_detail]\<rparr>) = (Inl e, w2)"
  shows "machines ext self w = (Inl (translate e), w2)"
  using assms
  by (simp add: machines_def converted_def and_then_def invoke_def
      convert_sdk_exceptions_def)

lemma built_power_states:
  assumes "for_each (from_sdk_server ext self) ss w = (Inr ms, w')"
  shows "map (\<lambda>s. map_of POWER_STATES (server_power_state s)) ss =
         map (\<lambda>m. Some (machine_power_state m)) ms"
proof (rule nth_equalityI)
  from for_each_nth [OF assms] have len: "length ms = length ss"
    and each: "\<forall>i<length ss. \<exists>wi wj.
         for_each (from_sdk_server ext self) (take i ss) w = (Inr (take i ms), wi)
         \<and> from_sdk_server ext self (ss ! i) wi = (Inr (ms ! i), wj)"
    by blast+
  from len show "length (map (\<lambda>s. map_of POWER_STATES (server_power_state s)) ss) =
      length (map (\<lambda>m. Some (machine_power_state m)) ms)"
    by simp
  fix i assume "i < length (map (\<lambda>s. map_of POWER_STATES (server_power_state s)) ss)"
  then have i: "i < length ss" by simp
  with each obtain wi wj where "from_sdk_server ext self (ss ! i) wi = (Inr (ms ! i), wj)"
    by blast
  from from_sdk_server_returns [OF this] i len
  show "map (\<lambda>s. map_of POWER_STATES (server_power_state s)) ss ! i =
      map (\<lambda>m. Some (machine_power_state m)) ms ! i"
    by auto
qed

lemmas eval_py_int = py_int_def strip_def is_space_def parse_unsigned_def digit_value_def
  int_max_str_digits_def

text \<open>
  The conversion on some strings: white space and underscores where they are allowed,
  the separators 28 to 31, which are not skipped, and a numeral beyond the limit.
\<close>

lemma py_int_examples:
  "py_int ''1'' = Some 1"
  "py_int '' 0 '' = Some 0"
  "py_int ''-1_0'' = Some (- 10)"
  "py_int ''+007'' = Some 7"
  "py_int [CHR 0x09, CHR 0x0A, CHR 0x0B, CHR ''7'', CHR 0x0C, CHR 0x0D] = Some 7"
  "py_int [CHR 0x1F, CHR ''1''] = None"
  "py_int [CHR ''1'', CHR 0x1C] = None"
  "py_int ''yes'' = None"
  "py_int '''' = None"
  "py_int ''  '' = None"
  "py_int ''1__0'' = None"
  "py_int ''_1'' = None"
  "py_int ''1_'' = None"
  "py_int ''+ 1'' = None"
  "py_int ''1.0'' = None"
  by (simp_all add: eval_py_int)

lemma py_int_digit_limit:
  assumes "4300 < n"
  shows "py_int (replicate n CHR ''1'') = None"
proof -
  from assms obtain m where n: "n = Suc m" and m: "4300 \<le> m"
    by (cases n) auto
  have kept: "\<not> is_space CHR ''1''"
    by (simp add: is_space_def)
  have "strip (replicate n CHR ''1'') = replicate n CHR ''1''"
    by (simp add: strip_def dropWhile_replicate kept)
  then have "strip (replicate n CHR ''1'') = CHR ''1'' # replicate m CHR ''1''"
    by (simp add: n)
  moreover have "parse_unsigned (CHR ''1'' # replicate m CHR ''1'') = None"
    using m by (simp add: parse_unsigned_def int_max_str_digits_def digit_value_def)
  ultimately show ?thesis
    by (simp add: py_int_def)
qed

lemmas eval_machine =
  find_machine_def machines_def converted_def convert_sdk_exceptions_def and_then_def
  invoke_def from_sdk_server_def resolve_nat_allowed_def getitem_def find_image_def
  find_image_cached_def from_sdk_image_def or_else_def tenant_network_def build_machine_def
  ip_of_type_def POWER_STATES_def lift_def raise_def return_def Let_def
  is_object_not_found_def replace_resource_names_def REPLACEMENTS_def replace.simps
  cloud_def web_server_def tenant_net_def router_port_def no_nat_image_def unavailable_def
  session_on_def fresh_def example_externals_def eval_py_int

lemma metadata_says_no:
  "\<exists>m w'. find_machine example_externals
      (session_on (cloud (web_server (Some [(''jasmin_nat_allowed'', ''0'')]) 1)
         (Inl SDKException))) ''m1'' (fresh ()) = (Inr m, w')
     \<and> machine_nat_allowed m = False \<and> machine_power_state m = ''Running''"
  by (simp add: eval_machine)

lemma image_says_no:
  "\<exists>m w'. find_machine example_externals
      (session_on (cloud (web_server (Some []) 1) (Inr no_nat_image))) ''m1'' (fresh ())
      = (Inr m, w')
     \<and> machine_nat_allowed m = False"
  by (simp add: eval_machine)

lemma image_is_gone:
  "\<exists>m w'. find_machine example_externals
      (session_on (cloud (web_server None 1)
         (Inl (ResourceNotFound 404 ''404 Not Found: No Image found for img1''))))
      ''m1'' (fresh ()) = (Inr m, w')
     \<and> machine_nat_allowed m = True"
  by (simp add: eval_machine)

lemma listed_image_says_no:
  "\<exists>m w'. machines example_externals
      (session_on (cloud (web_server (Some []) 1) (Inr no_nat_image))) (fresh ())
      = (Inr [m], w')
     \<and> machine_nat_allowed m = False \<and> machine_power_state m = ''Running''"
  by (simp add: eval_machine)

lemmas eval_cloud = cloud_def session_on_def unavailable_def fresh_def

text \<open>
  C3. For every machine that \<open>find_machine\<close> or \<open>machines\<close> produces, the
  NAT-allowed flag is resolved in the specified order from the server it was built
  from, in the world in which that server was converted: the flag of the metadata
  where the metadata carries one; else the flag of the image that \<open>find_image\<close>
  resolves; else true, where \<open>find_image\<close> fails with \<open>ObjectNotFoundError\<close>. For a
  listing, the world of the \<open>i\<close>-th server is the one the servers before it left.
\<close>

theorem nat_allowed_resolution:
  "(find_machine ext self ident w = (Inr m, w') \<longrightarrow>
      (\<exists>s s1. compute_get_server (session_connection self) ident (backend w) = (Inr s, s1)
         \<and> resolved_in_order self s
              (w\<lparr>backend := s1, calls := calls w @ [Compute_get_server ident]\<rparr>)
              (machine_nat_allowed m)))
   \<and> (machines ext self w = (Inr ms, w'') \<longrightarrow>
      (\<exists>ss s1. compute_list_server_detail (session_connection self) (backend w) = (Inr ss, s1)
         \<and> length ms = length ss
         \<and> (\<forall>i<length ss. \<exists>wi.
               for_each (from_sdk_server ext self) (take i ss)
                 (w\<lparr>backend := s1, calls := calls w @ [Compute_list_server_detail]\<rparr>)
                 = (Inr (take i ms), wi)
             \<and> resolved_in_order self (ss ! i) wi (machine_nat_allowed (ms ! i)))))"
proof (intro conjI impI)
  assume "find_machine ext self ident w = (Inr m, w')"
  from find_machine_returns [OF this] obtain s s1 where
    got: "compute_get_server (session_connection self) ident (backend w) = (Inr s, s1)"
    and built: "from_sdk_server ext self s
                (w\<lparr>backend := s1, calls := calls w @ [Compute_get_server ident]\<rparr>) = (Inr m, w')"
    by blast
  from from_sdk_server_returns [OF built] have
    "resolved_in_order self s (w\<lparr>backend := s1, calls := calls w @ [Compute_get_server ident]\<rparr>)
       (machine_nat_allowed m)"
    by (blast intro: resolve_nat_allowed_in_order)
  with got show "\<exists>s s1. compute_get_server (session_connection self) ident (backend w) = (Inr s, s1)
         \<and> resolved_in_order self s
              (w\<lparr>backend := s1, calls := calls w @ [Compute_get_server ident]\<rparr>)
              (machine_nat_allowed m)"
    by blast
next
  assume "machines ext self w = (Inr ms, w'')"
  from machines_returns [OF this] obtain ss s1 where
    got: "compute_list_server_detail (session_connection self) (backend w) = (Inr ss, s1)"
    and built: "for_each (from_sdk_server ext self) ss
                (w\<lparr>backend := s1, calls := calls w @ [Compute_list_server_detail]\<rparr>) = (Inr ms, w'')"
    by blast
  let ?w0 = "w\<lparr>backend := s1, calls := calls w @ [Compute_list_server_detail]\<rparr>"
  from for_each_nth [OF built] have len: "length ms = length ss"
    and each: "\<forall>i<length ss. \<exists>wi wj.
         for_each (from_sdk_server ext self) (take i ss) ?w0 = (Inr (take i ms), wi)
         \<and> from_sdk_server ext self (ss ! i) wi = (Inr (ms ! i), wj)"
    by blast+
  have "\<exists>wi. for_each (from_sdk_server ext self) (take i ss) ?w0 = (Inr (take i ms), wi)
             \<and> resolved_in_order self (ss ! i) wi (machine_nat_allowed (ms ! i))"
    if "i < length ss" for i
  proof -
    from each that obtain wi wj where
      before: "for_each (from_sdk_server ext self) (take i ss) ?w0 = (Inr (take i ms), wi)"
      and this_one: "from_sdk_server ext self (ss ! i) wi = (Inr (ms ! i), wj)"
      by blast
    from from_sdk_server_returns [OF this_one]
    have "resolved_in_order self (ss ! i) wi (machine_nat_allowed (ms ! i))"
      by (blast intro: resolve_nat_allowed_in_order)
    with before show ?thesis by blast
  qed
  with got len show "\<exists>ss s1. compute_list_server_detail (session_connection self) (backend w) = (Inr ss, s1)
         \<and> length ms = length ss
         \<and> (\<forall>i<length ss. \<exists>wi.
               for_each (from_sdk_server ext self) (take i ss)
                 (w\<lparr>backend := s1, calls := calls w @ [Compute_list_server_detail]\<rparr>)
                 = (Inr (take i ms), wi)
             \<and> resolved_in_order self (ss ! i) wi (machine_nat_allowed (ms ! i)))"
    by blast
qed

theorem nat_allowed_resolution_witness:
  "(\<exists>s s1. compute_get_server
        (session_connection
           (session_on (cloud (web_server (Some [(''jasmin_nat_allowed'', ''0'')]) 1)
              (Inl SDKException)))) ''m1'' (backend (fresh ())) = (Inr s, s1)
      \<and> resolved_in_order
           (session_on (cloud (web_server (Some [(''jasmin_nat_allowed'', ''0'')]) 1)
              (Inl SDKException))) s
           ((fresh ())\<lparr>backend := s1, calls := calls (fresh ()) @ [Compute_get_server ''m1'']\<rparr>)
           False)
   \<and> (\<exists>s s1. compute_get_server
        (session_connection (session_on (cloud (web_server (Some []) 1) (Inr no_nat_image))))
        ''m1'' (backend (fresh ())) = (Inr s, s1)
      \<and> resolved_in_order (session_on (cloud (web_server (Some []) 1) (Inr no_nat_image))) s
           ((fresh ())\<lparr>backend := s1, calls := calls (fresh ()) @ [Compute_get_server ''m1'']\<rparr>)
           False)
   \<and> (\<exists>s s1. compute_get_server
        (session_connection
           (session_on (cloud (web_server None 1)
              (Inl (ResourceNotFound 404 ''404 Not Found: No Image found for img1'')))))
        ''m1'' (backend (fresh ())) = (Inr s, s1)
      \<and> resolved_in_order
           (session_on (cloud (web_server None 1)
              (Inl (ResourceNotFound 404 ''404 Not Found: No Image found for img1'')))) s
           ((fresh ())\<lparr>backend := s1, calls := calls (fresh ()) @ [Compute_get_server ''m1'']\<rparr>)
           True)
   \<and> resolved_in_order (session_on (cloud (web_server (Some []) 1) (Inr no_nat_image)))
        (web_server (Some []) 1)
        ((fresh ())\<lparr>backend := (), calls := calls (fresh ()) @ [Compute_list_server_detail]\<rparr>)
        False"
proof (intro conjI)
  from metadata_says_no obtain m w' where
    "find_machine example_externals
      (session_on (cloud (web_server (Some [(''jasmin_nat_allowed'', ''0'')]) 1)
         (Inl SDKException))) ''m1'' (fresh ()) = (Inr m, w')"
    and "machine_nat_allowed m = False"
    by blast
  with nat_allowed_resolution [THEN conjunct1, rule_format, OF this(1)]
  show "\<exists>s s1. compute_get_server
        (session_connection
           (session_on (cloud (web_server (Some [(''jasmin_nat_allowed'', ''0'')]) 1)
              (Inl SDKException)))) ''m1'' (backend (fresh ())) = (Inr s, s1)
      \<and> resolved_in_order
           (session_on (cloud (web_server (Some [(''jasmin_nat_allowed'', ''0'')]) 1)
              (Inl SDKException))) s
           ((fresh ())\<lparr>backend := s1, calls := calls (fresh ()) @ [Compute_get_server ''m1'']\<rparr>)
           False"
    by simp
next
  from image_says_no obtain m w' where
    "find_machine example_externals
      (session_on (cloud (web_server (Some []) 1) (Inr no_nat_image))) ''m1'' (fresh ())
      = (Inr m, w')"
    and "machine_nat_allowed m = False"
    by blast
  with nat_allowed_resolution [THEN conjunct1, rule_format, OF this(1)]
  show "\<exists>s s1. compute_get_server
        (session_connection (session_on (cloud (web_server (Some []) 1) (Inr no_nat_image))))
        ''m1'' (backend (fresh ())) = (Inr s, s1)
      \<and> resolved_in_order (session_on (cloud (web_server (Some []) 1) (Inr no_nat_image))) s
           ((fresh ())\<lparr>backend := s1, calls := calls (fresh ()) @ [Compute_get_server ''m1'']\<rparr>)
           False"
    by simp
next
  from image_is_gone obtain m w' where
    "find_machine example_externals
      (session_on (cloud (web_server None 1)
         (Inl (ResourceNotFound 404 ''404 Not Found: No Image found for img1''))))
      ''m1'' (fresh ()) = (Inr m, w')"
    and "machine_nat_allowed m = True"
    by blast
  with nat_allowed_resolution [THEN conjunct1, rule_format, OF this(1)]
  show "\<exists>s s1. compute_get_server
        (session_connection
           (session_on (cloud (web_server None 1)
              (Inl (ResourceNotFound 404 ''404 Not Found: No Image found for img1'')))))
        ''m1'' (backend (fresh ())) = (Inr s, s1)
      \<and> resolved_in_order
           (session_on (cloud (web_server None 1)
              (Inl (ResourceNotFound 404 ''404 Not Found: No Image found for img1'')))) s
           ((fresh ())\<lparr>backend := s1, calls := calls (fresh ()) @ [Compute_get_server ''m1'']\<rparr>)
           True"
    by simp
next
  from listed_image_says_no obtain m w' where
    "machines example_externals
      (session_on (cloud (web_server (Some []) 1) (Inr no_nat_image))) (fresh ())
      = (Inr [m], w')"
    and "machine_nat_allowed m = False"
    by blast
  with nat_allowed_resolution [THEN conjunct2, rule_format, OF this(1)]
  show "resolved_in_order (session_on (cloud (web_server (Some []) 1) (Inr no_nat_image)))
        (web_server (Some []) 1)
        ((fresh ())\<lparr>backend := (), calls := calls (fresh ()) @ [Compute_list_server_detail]\<rparr>)
        False"
    by (simp add: eval_cloud)
qed

text \<open>
  C7. The power state of every machine that \<open>find_machine\<close> or \<open>machines\<close>
  produces is the entry of the table for the server's numeric code, one of the six
  names. For a server whose code is outside the table no machine is built and no
  default is substituted: the conversion raises, the lookup itself with \<open>KeyError\<close>
  once the statements before it (the NAT-allowed flag, the tenant network, the image
  and flavor ids) have passed, and \<open>KeyError\<close> leaves \<open>find_machine\<close> as it is,
  not translated by the decorator.
\<close>

theorem power_state_table:
  "(find_machine ext self ident w = (Inr m, w') \<longrightarrow>
      (\<exists>s s1. compute_get_server (session_connection self) ident (backend w) = (Inr s, s1)
         \<and> map_of POWER_STATES (server_power_state s) = Some (machine_power_state m)
         \<and> machine_power_state m \<in>
             {''Unknown'', ''Running'', ''Paused'', ''Shut down'', ''Crashed'', ''Suspended''}))
   \<and> (machines ext self w = (Inr ms, w'') \<longrightarrow>
      (\<exists>ss s1. compute_list_server_detail (session_connection self) (backend w) = (Inr ss, s1)
         \<and> map (\<lambda>s. map_of POWER_STATES (server_power_state s)) ss =
             map (\<lambda>m. Some (machine_power_state m)) ms
         \<and> (\<forall>m \<in> set ms. machine_power_state m \<in>
             {''Unknown'', ''Running'', ''Paused'', ''Shut down'', ''Crashed'', ''Suspended''})))
   \<and> (map_of POWER_STATES (server_power_state sdk_server) = None \<longrightarrow>
        (\<exists>e w1. from_sdk_server ext self sdk_server w = (Inl e, w1))
      \<and> (\<forall>s1. compute_get_server (session_connection self) ident (backend w)
                 = (Inr sdk_server, s1) \<longrightarrow>
            (\<exists>e w1. find_machine ext self ident w = (Inl e, w1)))
      \<and> (\<forall>ss s1. compute_list_server_detail (session_connection self) (backend w)
                 = (Inr ss, s1) \<and> sdk_server \<in> set ss \<longrightarrow>
            (\<exists>e w1. machines ext self w = (Inl e, w1)))
      \<and> (\<forall>flag w1 net w2 i f.
            resolve_nat_allowed self sdk_server w = (Inr flag, w1)
          \<and> tenant_network self w1 = (Inr net, w2)
          \<and> getitem (server_image sdk_server) ''id'' = Inr i
          \<and> getitem (server_flavor sdk_server) ''id'' = Inr f \<longrightarrow>
            from_sdk_server ext self sdk_server w = (Inl KeyError, w2))
      \<and> (\<forall>s1 w2.
            compute_get_server (session_connection self) ident (backend w) = (Inr sdk_server, s1)
          \<and> from_sdk_server ext self sdk_server
               (w\<lparr>backend := s1, calls := calls w @ [Compute_get_server ident]\<rparr>)
               = (Inl KeyError, w2) \<longrightarrow>
            find_machine ext self ident w = (Inl KeyError, w2))
      \<and> (\<forall>before rest s1 built wi w2.
            compute_list_server_detail (session_connection self) (backend w)
              = (Inr (before @ sdk_server # rest), s1)
          \<and> for_each (from_sdk_server ext self) before
               (w\<lparr>backend := s1, calls := calls w @ [Compute_list_server_detail]\<rparr>)
               = (Inr built, wi)
          \<and> from_sdk_server ext self sdk_server wi = (Inl KeyError, w2) \<longrightarrow>
            machines ext self w = (Inl KeyError, w2)))"
proof (intro conjI impI allI)
  assume "find_machine ext self ident w = (Inr m, w')"
  from find_machine_returns [OF this] obtain s s1 w0 where
    got: "compute_get_server (session_connection self) ident (backend w) = (Inr s, s1)"
    and built: "from_sdk_server ext self s w0 = (Inr m, w')"
    by blast
  from from_sdk_server_returns [OF built]
  have mapped: "map_of POWER_STATES (server_power_state s) = Some (machine_power_state m)"
    by blast
  with got power_state_vocabulary [OF mapped]
  show "\<exists>s s1. compute_get_server (session_connection self) ident (backend w) = (Inr s, s1)
         \<and> map_of POWER_STATES (server_power_state s) = Some (machine_power_state m)
         \<and> machine_power_state m \<in>
             {''Unknown'', ''Running'', ''Paused'', ''Shut down'', ''Crashed'', ''Suspended''}"
    by blast
next
  assume "machines ext self w = (Inr ms, w'')"
  from machines_returns [OF this] obtain ss s1 w0 where
    got: "compute_list_server_detail (session_connection self) (backend w) = (Inr ss, s1)"
    and built: "for_each (from_sdk_server ext self) ss w0 = (Inr ms, w'')"
    by blast
  note mapped = built_power_states [OF built]
  have "machine_power_state m \<in>
      {''Unknown'', ''Running'', ''Paused'', ''Shut down'', ''Crashed'', ''Suspended''}"
    if "m \<in> set ms" for m
  proof -
    from that have "Some (machine_power_state m) \<in>
        set (map (\<lambda>s. map_of POWER_STATES (server_power_state s)) ss)"
      unfolding mapped by force
    then obtain s :: sdk_server where
      "Some (machine_power_state m) = map_of POWER_STATES (server_power_state s)"
      by auto
    then have "map_of POWER_STATES (server_power_state s) = Some (machine_power_state m)"
      by simp
    then show ?thesis by (rule power_state_vocabulary)
  qed
  with got mapped
  show "\<exists>ss s1. compute_list_server_detail (session_connection self) (backend w) = (Inr ss, s1)
         \<and> map (\<lambda>s. map_of POWER_STATES (server_power_state s)) ss =
             map (\<lambda>m. Some (machine_power_state m)) ms
         \<and> (\<forall>m \<in> set ms. machine_power_state m \<in>
             {''Unknown'', ''Running'', ''Paused'', ''Shut down'', ''Crashed'', ''Suspended''})"
    by blast
next
  assume unmapped: "map_of POWER_STATES (server_power_state sdk_server) = None"
  show "\<exists>e w1. from_sdk_server ext self sdk_server w = (Inl e, w1)"
    using unmapped by (rule from_sdk_server_unmapped)
next
  fix s1
  assume unmapped: "map_of POWER_STATES (server_power_state sdk_server) = None"
    and got: "compute_get_server (session_connection self) ident (backend w) = (Inr sdk_server, s1)"
  from from_sdk_server_unmapped [OF unmapped] obtain e w1 where
    "from_sdk_server ext self sdk_server
       (w\<lparr>backend := s1, calls := calls w @ [Compute_get_server ident]\<rparr>) = (Inl e, w1)"
    by blast
  from find_machine_raises [OF got this]
  show "\<exists>e w1. find_machine ext self ident w = (Inl e, w1)"
    by blast
next
  fix ss s1
  assume unmapped: "map_of POWER_STATES (server_power_state sdk_server) = None"
    and listed: "compute_list_server_detail (session_connection self) (backend w) = (Inr ss, s1)
                 \<and> sdk_server \<in> set ss"
  from listed have "sdk_server \<in> set ss" by simp
  from for_each_raises [where f = "from_sdk_server ext self", OF this]
    from_sdk_server_unmapped [OF unmapped]
  obtain e w1 where
    "for_each (from_sdk_server ext self) ss
       (w\<lparr>backend := s1, calls := calls w @ [Compute_list_server_detail]\<rparr>) = (Inl e, w1)"
    by blast
  from machines_raises [OF conjunct1 [OF listed] this]
  show "\<exists>e w1. machines ext self w = (Inl e, w1)"
    by blast
next
  fix flag w1 net w2 i f
  assume "map_of POWER_STATES (server_power_state sdk_server) = None"
    and "resolve_nat_allowed self sdk_server w = (Inr flag, w1)
          \<and> tenant_network self w1 = (Inr net, w2)
          \<and> getitem (server_image sdk_server) ''id'' = Inr i
          \<and> getitem (server_flavor sdk_server) ''id'' = Inr f"
  then show "from_sdk_server ext self sdk_server w = (Inl KeyError, w2)"
    by (blast intro: from_sdk_server_key_error)
next
  fix s1 w2
  assume "compute_get_server (session_connection self) ident (backend w) = (Inr sdk_server, s1)
          \<and> from_sdk_server ext self sdk_server
               (w\<lparr>backend := s1, calls := calls w @ [Compute_get_server ident]\<rparr>)
               = (Inl KeyError, w2)"
  then show "find_machine ext self ident w = (Inl KeyError, w2)"
    using find_machine_raises [of self ident w sdk_server s1 ext KeyError w2] by simp
next
  fix before rest s1 built wi w2
  assume listed: "compute_list_server_detail (session_connection self) (backend w)
              = (Inr (before @ sdk_server # rest), s1)
          \<and> for_each (from_sdk_server ext self) before
               (w\<lparr>backend := s1, calls := calls w @ [Compute_list_server_detail]\<rparr>)
               = (Inr built, wi)
          \<and> from_sdk_server ext self sdk_server wi = (Inl KeyError, w2)"
  then have "for_each (from_sdk_server ext self) (before @ sdk_server # rest)
      (w\<lparr>backend := s1, calls := calls w @ [Compute_list_server_detail]\<rparr>) = (Inl KeyError, w2)"
    by (blast intro: for_each_stops)
  from machines_raises [OF conjunct1 [OF listed] this]
  show "machines ext self w = (Inl KeyError, w2)"
    by simp
qed

theorem power_state_table_witness:
  "(\<exists>s s1. compute_get_server
        (session_connection
           (session_on (cloud (web_server (Some [(''jasmin_nat_allowed'', ''0'')]) 1)
              (Inl SDKException)))) ''m1'' (backend (fresh ())) = (Inr s, s1)
      \<and> map_of POWER_STATES (server_power_state s) = Some ''Running'')
   \<and> find_machine example_externals
        (session_on (cloud (web_server (Some [(''jasmin_nat_allowed'', ''0'')]) 2)
           (Inl SDKException))) ''m1'' (fresh ()) =
       (Inl KeyError,
        \<lparr>backend = (),
          calls = [Compute_get_server ''m1'',
                   Network_ports (By_device_owner ''network:router_interface''),
                   Network_find_network ''net1''],
          image_cache = [],
          tenant_network_cache = Some (Some tenant_net)\<rparr>)"
proof (intro conjI)
  from metadata_says_no obtain m w' where
    "find_machine example_externals
      (session_on (cloud (web_server (Some [(''jasmin_nat_allowed'', ''0'')]) 1)
         (Inl SDKException))) ''m1'' (fresh ()) = (Inr m, w')"
    and "machine_power_state m = ''Running''"
    by blast
  with power_state_table [THEN conjunct1, rule_format, OF this(1)]
  show "\<exists>s s1. compute_get_server
        (session_connection
           (session_on (cloud (web_server (Some [(''jasmin_nat_allowed'', ''0'')]) 1)
              (Inl SDKException)))) ''m1'' (backend (fresh ())) = (Inr s, s1)
      \<and> map_of POWER_STATES (server_power_state s) = Some ''Running''"
    by auto
next
  let ?srv = "web_server (Some [(''jasmin_nat_allowed'', ''0'')]) 2"
  let ?S = "session_on (cloud ?srv (Inl SDKException))"
  let ?w0 = "(fresh ())\<lparr>backend := (), calls := calls (fresh ()) @ [Compute_get_server ''m1'']\<rparr>"
  let ?w2 = "\<lparr>backend = (),
          calls = [Compute_get_server ''m1'',
                   Network_ports (By_device_owner ''network:router_interface''),
                   Network_find_network ''net1''],
          image_cache = [],
          tenant_network_cache = Some (Some tenant_net)\<rparr>"
  have unmapped: "map_of POWER_STATES (server_power_state ?srv) = None"
    by (simp add: POWER_STATES_def web_server_def)
  have got: "compute_get_server (session_connection ?S) ''m1'' (backend (fresh ())) = (Inr ?srv, ())"
    by (simp add: eval_cloud)
  have flag: "resolve_nat_allowed ?S ?srv ?w0 = (Inr False, ?w0)"
    by (simp add: resolve_nat_allowed_def getitem_def web_server_def eval_py_int)
  have net: "tenant_network ?S ?w0 = (Inr (Some tenant_net), ?w2)"
    by (simp add: tenant_network_def and_then_def invoke_def eval_cloud router_port_def)
  have img: "getitem (server_image ?srv) ''id'' = Inr ''img1''"
    and flv: "getitem (server_flavor ?srv) ''id'' = Inr ''small''"
    by (simp_all add: getitem_def web_server_def)
  note table = power_state_table [where sdk_server = ?srv and self = ?S
      and ext = example_externals and ident = "''m1''",
      THEN conjunct2, THEN conjunct2, rule_format, OF unmapped]
  from table [where w = ?w0]
  have "from_sdk_server example_externals ?S ?srv ?w0 = (Inl KeyError, ?w2)"
    using flag net img flv by blast
  with table [where w = "fresh ()"] got
  show "find_machine example_externals ?S ''m1'' (fresh ()) = (Inl KeyError, ?w2)"
    by blast
qed

text \<open>
  C10. For a server whose metadata carries the NAT-allowed key, the flag is decided by
  the value alone and the world is left as it was: neither the image nor the default
  is consulted. Where the value does not parse as an integer, the conversion raises
  \<open>ValueError\<close>, which leaves \<open>find_machine\<close> and \<open>machines\<close> untranslated.
\<close>

theorem malformed_nat_flag:
  assumes "getitem (server_metadata sdk_server) ''jasmin_nat_allowed'' = Inr v"
  shows "resolve_nat_allowed self sdk_server w =
           (case py_int v of
              None \<Rightarrow> (Inl ValueError, w)
            | Some n \<Rightarrow> (Inr (n \<noteq> 0), w))
       \<and> (py_int v = None \<longrightarrow>
            from_sdk_server ext self sdk_server w = (Inl ValueError, w)
          \<and> (\<forall>s1. compute_get_server (session_connection self) ident (backend w)
                     = (Inr sdk_server, s1) \<longrightarrow>
                find_machine ext self ident w =
                  (Inl ValueError,
                   w\<lparr>backend := s1, calls := calls w @ [Compute_get_server ident]\<rparr>))
          \<and> (\<forall>before rest s1 built wi.
                compute_list_server_detail (session_connection self) (backend w)
                  = (Inr (before @ sdk_server # rest), s1)
              \<and> for_each (from_sdk_server ext self) before
                  (w\<lparr>backend := s1, calls := calls w @ [Compute_list_server_detail]\<rparr>)
                  = (Inr built, wi) \<longrightarrow>
                machines ext self w = (Inl ValueError, wi))
          \<and> (\<forall>ss s1. compute_list_server_detail (session_connection self) (backend w)
                     = (Inr ss, s1) \<and> sdk_server \<in> set ss \<longrightarrow>
                (\<exists>e w1. machines ext self w = (Inl e, w1))))"
proof (intro conjI impI allI)
  show resolved: "resolve_nat_allowed self sdk_server w =
           (case py_int v of
              None \<Rightarrow> (Inl ValueError, w)
            | Some n \<Rightarrow> (Inr (n \<noteq> 0), w))" for w
    using assms by (simp add: resolve_nat_allowed_def split: option.splits)
  assume malformed: "py_int v = None"
  show raised: "from_sdk_server ext self sdk_server w = (Inl ValueError, w)" for w
    using resolved [of w] malformed by (simp add: from_sdk_server_def and_then_def)
  {
    fix s1
    assume "compute_get_server (session_connection self) ident (backend w) = (Inr sdk_server, s1)"
    from find_machine_raises [OF this raised]
    show "find_machine ext self ident w =
        (Inl ValueError, w\<lparr>backend := s1, calls := calls w @ [Compute_get_server ident]\<rparr>)"
      by simp
  }
  {
    fix before rest s1 built wi
    assume listed: "compute_list_server_detail (session_connection self) (backend w)
          = (Inr (before @ sdk_server # rest), s1)
        \<and> for_each (from_sdk_server ext self) before
          (w\<lparr>backend := s1, calls := calls w @ [Compute_list_server_detail]\<rparr>)
          = (Inr built, wi)"
    from for_each_stops [OF conjunct2 [OF listed] raised]
    have "for_each (from_sdk_server ext self) (before @ sdk_server # rest)
        (w\<lparr>backend := s1, calls := calls w @ [Compute_list_server_detail]\<rparr>) =
        (Inl ValueError, wi)" .
    from machines_raises [OF conjunct1 [OF listed] this]
    show "machines ext self w = (Inl ValueError, wi)"
      by simp
  }
  {
    fix ss s1
    assume listed: "compute_list_server_detail (session_connection self) (backend w)
        = (Inr ss, s1) \<and> sdk_server \<in> set ss"
    then have "sdk_server \<in> set ss" by simp
    from for_each_raises [where f = "from_sdk_server ext self", OF this] raised
    obtain e w1 where
      "for_each (from_sdk_server ext self) ss
         (w\<lparr>backend := s1, calls := calls w @ [Compute_list_server_detail]\<rparr>) = (Inl e, w1)"
      by blast
    from machines_raises [OF conjunct1 [OF listed] this]
    show "\<exists>e w1. machines ext self w = (Inl e, w1)"
      by blast
  }
qed

theorem malformed_nat_flag_witness:
  "resolve_nat_allowed
      (session_on (cloud (web_server (Some [(''jasmin_nat_allowed'', ''yes'')]) 1)
         (Inr no_nat_image)))
      (web_server (Some [(''jasmin_nat_allowed'', ''yes'')]) 1) (fresh ()) =
     (Inl ValueError, fresh ())
   \<and> find_machine example_externals
      (session_on (cloud (web_server (Some [(''jasmin_nat_allowed'', ''yes'')]) 1)
         (Inr no_nat_image))) ''m1'' (fresh ()) =
     (Inl ValueError,
      \<lparr>backend = (), calls = [Compute_get_server ''m1''], image_cache = [],
        tenant_network_cache = None\<rparr>)
   \<and> machines example_externals
      (session_on (cloud (web_server (Some [(''jasmin_nat_allowed'', ''yes'')]) 1)
         (Inr no_nat_image))) (fresh ()) =
     (Inl ValueError,
      \<lparr>backend = (), calls = [Compute_list_server_detail], image_cache = [],
        tenant_network_cache = None\<rparr>)"
proof -
  let ?srv = "web_server (Some [(''jasmin_nat_allowed'', ''yes'')]) 1"
  let ?S = "session_on (cloud ?srv (Inr no_nat_image))"
  have carried: "getitem (server_metadata ?srv) ''jasmin_nat_allowed'' = Inr ''yes''"
    by (simp add: getitem_def web_server_def)
  have malformed: "py_int ''yes'' = None"
    by (simp add: eval_py_int)
  have got: "compute_get_server (session_connection ?S) ''m1'' (backend (fresh ())) = (Inr ?srv, ())"
    and listed: "compute_list_server_detail (session_connection ?S) (backend (fresh ()))
        = (Inr [?srv], ())"
    by (simp_all add: eval_cloud)
  let ?w0 = "(fresh ())\<lparr>backend := (),
      calls := calls (fresh ()) @ [Compute_list_server_detail]\<rparr>"
  have listed': "compute_list_server_detail (session_connection ?S) (backend (fresh ()))
        = (Inr ([] @ ?srv # []), ())"
    using listed by simp
  have none_before: "for_each (from_sdk_server example_externals ?S) [] ?w0 = (Inr [], ?w0)"
    by simp
  note flagged = malformed_nat_flag [OF carried, where self = ?S and ext = example_externals
      and ident = "''m1''" and w = "fresh ()"]
  from flagged malformed have "resolve_nat_allowed ?S ?srv (fresh ()) = (Inl ValueError, fresh ())"
    by simp
  moreover from flagged [THEN conjunct2, rule_format, OF malformed,
      THEN conjunct2, THEN conjunct1, rule_format, OF got]
  have "find_machine example_externals ?S ''m1'' (fresh ()) =
     (Inl ValueError,
      \<lparr>backend = (), calls = [Compute_get_server ''m1''], image_cache = [],
        tenant_network_cache = None\<rparr>)"
    by (simp add: fresh_def)
  moreover from flagged [THEN conjunct2, rule_format, OF malformed,
      THEN conjunct2, THEN conjunct2, THEN conjunct1, rule_format,
      OF conjI [OF listed' none_before]]
  have "machines example_externals ?S (fresh ()) =
     (Inl ValueError,
      \<lparr>backend = (), calls = [Compute_list_server_detail], image_cache = [],
        tenant_network_cache = None\<rparr>)"
    by (simp add: fresh_def)
  ultimately show ?thesis
    by simp
qed

subsection \<open>External IPs\<close>

text \<open>
  C9. \<open>attach_external_ip\<close> for a machine that is allowed NAT and has a port on the
  tenant network, when no floating IP has the requested address: the call raises
  \<open>ObjectNotFoundError\<close>, and where a floating IP was bound to the port, the backend
  was asked to detach it (\<open>update_ip\<close> with no port) before the address was looked
  up; the world the call leaves is the one after that detachment and the failed
  lookup, with no call that binds anything again.
\<close>

theorem detach_precedes_not_found:
  assumes "machine_or_find ext self machine_given w = (Inr machine, w0)"
    and "machine_nat_allowed machine"
    and "tenant_network self w0 = (Inr (Some net), w1)"
    and "network_ports (session_connection self)
           (By_device_and_network (machine_id machine) (network_id net)) (backend w1)
           = (Inr (port # ports), s2)"
    and "network_ips (session_connection self) (By_port_id (port_id port)) s2
           = (Inr bound, s3)"
  shows "(\<forall>current others detached s4 s5.
            bound = current # others
          \<and> network_update_ip (session_connection self) current None s3 = (Inr detached, s4)
          \<and> network_ips (session_connection self)
               (By_floating_ip_address (ip_address ip_given)) s4 = (Inr [], s5) \<longrightarrow>
            attach_external_ip ext self ip_given machine_given w =
              (Inl (Errors ObjectNotFoundError
                      (''Could not find external IP '' @ [CHR 0x27] @ ip_address ip_given
                       @ [CHR 0x27])),
               w1\<lparr>backend := s5,
                  calls := calls w1 @
                    [Network_ports
                       (By_device_and_network (machine_id machine) (network_id net)),
                     Network_ips (By_port_id (port_id port)),
                     Network_update_ip current None,
                     Network_ips (By_floating_ip_address (ip_address ip_given))]\<rparr>))
       \<and> (\<forall>s5.
            bound = []
          \<and> network_ips (session_connection self)
               (By_floating_ip_address (ip_address ip_given)) s3 = (Inr [], s5) \<longrightarrow>
            attach_external_ip ext self ip_given machine_given w =
              (Inl (Errors ObjectNotFoundError
                      (''Could not find external IP '' @ [CHR 0x27] @ ip_address ip_given
                       @ [CHR 0x27])),
               w1\<lparr>backend := s5,
                  calls := calls w1 @
                    [Network_ports
                       (By_device_and_network (machine_id machine) (network_id net)),
                     Network_ips (By_port_id (port_id port)),
                     Network_ips (By_floating_ip_address (ip_address ip_given))]\<rparr>))"
  using assms
  by (simp add: attach_external_ip_def converted_def and_then_def invoke_def raise_def
      return_def convert_sdk_exceptions_def Let_def)

theorem detach_precedes_not_found_witness:
  "attach_external_ip example_externals (session_on floating_network)
      (Ip_address ''203.0.113.9'') (Machine_object web_machine) (fresh [bound_ip]) =
     (Inl (Errors ObjectNotFoundError (''Could not find external IP '' @ [CHR 0x27] @ ''203.0.113.9'' @ [CHR 0x27])),
      \<lparr>backend = [bound_ip\<lparr>floatingip_port_id := None\<rparr>],
        calls = [Network_ports (By_device_owner ''network:router_interface''),
                 Network_find_network ''net1'',
                 Network_ports (By_device_and_network ''m1'' ''net1''),
                 Network_ips (By_port_id ''p1''),
                 Network_update_ip bound_ip None,
                 Network_ips (By_floating_ip_address ''203.0.113.9'')],
        image_cache = [],
        tenant_network_cache = Some (Some tenant_net)\<rparr>)
   \<and> attach_external_ip example_externals (session_on floating_network)
      (Ip_address ''203.0.113.9'') (Machine_object web_machine) (fresh []) =
     (Inl (Errors ObjectNotFoundError (''Could not find external IP '' @ [CHR 0x27] @ ''203.0.113.9'' @ [CHR 0x27])),
      \<lparr>backend = [],
        calls = [Network_ports (By_device_owner ''network:router_interface''),
                 Network_find_network ''net1'',
                 Network_ports (By_device_and_network ''m1'' ''net1''),
                 Network_ips (By_port_id ''p1''),
                 Network_ips (By_floating_ip_address ''203.0.113.9'')],
        image_cache = [],
        tenant_network_cache = Some (Some tenant_net)\<rparr>)"
proof (intro conjI)
  let ?S = "session_on floating_network"
  let ?w1 = "\<lparr>backend = [bound_ip],
        calls = [Network_ports (By_device_owner ''network:router_interface''),
                 Network_find_network ''net1''],
        image_cache = [],
        tenant_network_cache = Some (Some tenant_net)\<rparr>"
  have given: "machine_or_find example_externals ?S (Machine_object web_machine) (fresh [bound_ip])
      = (Inr web_machine, fresh [bound_ip])"
    by (simp add: machine_or_find_def return_def)
  have allowed: "machine_nat_allowed web_machine"
    by (simp add: web_machine_def)
  have net: "tenant_network ?S (fresh [bound_ip]) = (Inr (Some tenant_net), ?w1)"
    by (simp add: tenant_network_def and_then_def invoke_def floating_network_def eval_cloud tenant_net_def router_port_def)
  have port: "network_ports (session_connection ?S)
      (By_device_and_network (machine_id web_machine) (network_id tenant_net)) (backend ?w1)
      = (Inr (machine_port # []), [bound_ip])"
    by (simp add: floating_network_def eval_cloud tenant_net_def router_port_def)
  have bound: "network_ips (session_connection ?S) (By_port_id (port_id machine_port)) [bound_ip]
      = (Inr (bound_ip # []), [bound_ip])"
    by (simp add: floating_network_def eval_cloud tenant_net_def router_port_def answers_def bound_ip_def machine_port_def)
  have detach: "network_update_ip (session_connection ?S) bound_ip None [bound_ip]
      = (Inr (bound_ip\<lparr>floatingip_port_id := None\<rparr>), [bound_ip\<lparr>floatingip_port_id := None\<rparr>])"
    by (simp add: floating_network_def eval_cloud tenant_net_def router_port_def)
  have missing: "network_ips (session_connection ?S)
      (By_floating_ip_address (ip_address (Ip_address ''203.0.113.9'')))
      [bound_ip\<lparr>floatingip_port_id := None\<rparr>] = (Inr [], [bound_ip\<lparr>floatingip_port_id := None\<rparr>])"
    by (simp add: floating_network_def eval_cloud tenant_net_def router_port_def answers_def bound_ip_def ip_address_def)
  from detach_precedes_not_found [OF given allowed net port bound,
      THEN conjunct1, rule_format, OF conjI [OF refl conjI [OF detach missing]]]
  show "attach_external_ip example_externals ?S
      (Ip_address ''203.0.113.9'') (Machine_object web_machine) (fresh [bound_ip]) =
     (Inl (Errors ObjectNotFoundError (''Could not find external IP '' @ [CHR 0x27] @ ''203.0.113.9'' @ [CHR 0x27])),
      \<lparr>backend = [bound_ip\<lparr>floatingip_port_id := None\<rparr>],
        calls = [Network_ports (By_device_owner ''network:router_interface''),
                 Network_find_network ''net1'',
                 Network_ports (By_device_and_network ''m1'' ''net1''),
                 Network_ips (By_port_id ''p1''),
                 Network_update_ip bound_ip None,
                 Network_ips (By_floating_ip_address ''203.0.113.9'')],
        image_cache = [],
        tenant_network_cache = Some (Some tenant_net)\<rparr>)"
    by (simp add: ip_address_def web_machine_def tenant_net_def machine_port_def)
next
  let ?S = "session_on floating_network"
  let ?w1 = "\<lparr>backend = [],
        calls = [Network_ports (By_device_owner ''network:router_interface''),
                 Network_find_network ''net1''],
        image_cache = [],
        tenant_network_cache = Some (Some tenant_net)\<rparr>"
  have given: "machine_or_find example_externals ?S (Machine_object web_machine) (fresh [])
      = (Inr web_machine, fresh [])"
    by (simp add: machine_or_find_def return_def)
  have allowed: "machine_nat_allowed web_machine"
    by (simp add: web_machine_def)
  have net: "tenant_network ?S (fresh []) = (Inr (Some tenant_net), ?w1)"
    by (simp add: tenant_network_def and_then_def invoke_def floating_network_def eval_cloud
        tenant_net_def router_port_def)
  have port: "network_ports (session_connection ?S)
      (By_device_and_network (machine_id web_machine) (network_id tenant_net)) (backend ?w1)
      = (Inr (machine_port # []), [])"
    by (simp add: floating_network_def eval_cloud)
  have unbound: "network_ips (session_connection ?S) (By_port_id (port_id machine_port)) []
      = (Inr [], [])"
    by (simp add: floating_network_def eval_cloud)
  have missing: "network_ips (session_connection ?S)
      (By_floating_ip_address (ip_address (Ip_address ''203.0.113.9''))) [] = (Inr [], [])"
    by (simp add: floating_network_def eval_cloud)
  from detach_precedes_not_found [OF given allowed net port unbound,
      THEN conjunct2, rule_format, OF conjI [OF refl missing]]
  show "attach_external_ip example_externals ?S
      (Ip_address ''203.0.113.9'') (Machine_object web_machine) (fresh []) =
     (Inl (Errors ObjectNotFoundError (''Could not find external IP '' @ [CHR 0x27] @ ''203.0.113.9'' @ [CHR 0x27])),
      \<lparr>backend = [],
        calls = [Network_ports (By_device_owner ''network:router_interface''),
                 Network_find_network ''net1'',
                 Network_ports (By_device_and_network ''m1'' ''net1''),
                 Network_ips (By_port_id ''p1''),
                 Network_ips (By_floating_ip_address ''203.0.113.9'')],
        image_cache = [],
        tenant_network_cache = Some (Some tenant_net)\<rparr>)"
    by (simp add: ip_address_def web_machine_def tenant_net_def machine_port_def)
qed

end
